theory Spec2Isabelle
  imports Main "HOL-Library.AList" "HOL-Library.Sublist"
begin

section \<open>Values, exceptions and the Python object protocol\<close>

text \<open>
  The values a loaded YAML document is made of. A Python \<open>dict\<close> is an association list in
  the dict's iteration order (its keys are distinct in any value that Python can build; the
  operations below are defined, and the theorems hold, for every association list). Python's
  \<open>bool\<close> is a subclass of \<open>int\<close> with \<open>True == 1\<close> and \<open>hash(True) == hash(1)\<close>, so the
  booleans are the integers 1 and 0 here. A string is a list of characters, one \<open>char\<close> for
  each character of the Python string; floats and timestamps are not part of the model.
\<close>

datatype yaml =
    YNull
  | YInt int
  | YStr string
  | YList "yaml list"
  | YMap "(yaml \<times> yaml) list"

type_synonym dict = "(yaml \<times> yaml) list"

text \<open>
  The exceptions that leave the code, as values. \<open>ExternalError\<close> stands for whatever a
  collaborator raises on its own account (an \<open>IOError\<close>, a YAML parse error, a
  \<open>URLError\<close>).
\<close>

datatype error =
    MissingRequiredFieldError string string
  | UnknownFieldError string yaml
  | InvalidTemplateVersion yaml string
  | ImportError string
  | KeyError string
  | TypeError
  | AttributeError
  | ValueError
  | ExternalError string

text \<open>The calls of the document loader made so far: location and is-a-file flag, in order.\<close>

type_synonym load_log = "(string \<times> bool) list"

text \<open>Truth value of an object in a condition (\<open>if x:\<close>, \<open>x or y\<close>).\<close>

fun truthy :: "yaml \<Rightarrow> bool" where
  "truthy YNull = False"
| "truthy (YInt i) = (i \<noteq> 0)"
| "truthy (YStr s) = (s \<noteq> [])"
| "truthy (YList xs) = (xs \<noteq> [])"
| "truthy (YMap kvs) = (kvs \<noteq> [])"

text \<open>\<open>obj[key]\<close> for a string key: only a dict can be subscripted by a string.\<close>

fun py_getitem :: "yaml \<Rightarrow> string \<Rightarrow> error + yaml" where
  "py_getitem (YMap kvs) key =
     (case map_of kvs (YStr key) of None \<Rightarrow> Inl (KeyError key) | Some v \<Rightarrow> Inr v)"
| "py_getitem v key = Inl TypeError"

text \<open>\<open>obj.get(key)\<close>: only a dict has the method; a missing key gives \<open>None\<close>.\<close>

fun py_get :: "yaml \<Rightarrow> string \<Rightarrow> error + yaml" where
  "py_get (YMap kvs) key =
     (case map_of kvs (YStr key) of None \<Rightarrow> Inr YNull | Some v \<Rightarrow> Inr v)"
| "py_get v key = Inl AttributeError"

text \<open>\<open>sub in s\<close> for two strings: \<open>sub\<close> occurs in \<open>s\<close> as a contiguous piece.\<close>

fun py_str_contains :: "string \<Rightarrow> string \<Rightarrow> bool" where
  "py_str_contains sub [] = (sub = [])"
| "py_str_contains sub (c # cs) = (take (length sub) (c # cs) = sub \<or> py_str_contains sub cs)"

text \<open>\<open>key in obj\<close> for a string key.\<close>

fun py_contains :: "string \<Rightarrow> yaml \<Rightarrow> error + bool" where
  "py_contains key (YMap kvs) = Inr (YStr key \<in> set (map fst kvs))"
| "py_contains key (YList xs) = Inr (YStr key \<in> set xs)"
| "py_contains key (YStr s) = Inr (py_str_contains key s)"
| "py_contains key v = Inl TypeError"

text \<open>
  The elements a \<open>for\<close> loop over the object visits: the keys of a dict, the items of a list,
  the characters of a string; anything else is not iterable.
\<close>

fun py_iter :: "yaml \<Rightarrow> error + yaml list" where
  "py_iter (YMap kvs) = Inr (map fst kvs)"
| "py_iter (YList xs) = Inr xs"
| "py_iter (YStr s) = Inr (map (\<lambda>c. YStr [c]) s)"
| "py_iter v = Inl TypeError"

text \<open>\<open>s.rstrip()\<close>: the longest run of whitespace at the end is dropped; only a string has
  the method. Which characters are whitespace is left to the caller.\<close>

definition rstrip :: "(char \<Rightarrow> bool) \<Rightarrow> string \<Rightarrow> string" where
  "rstrip space s = rev (dropWhile space (rev s))"

fun py_rstrip :: "(char \<Rightarrow> bool) \<Rightarrow> yaml \<Rightarrow> error + string" where
  "py_rstrip space (YStr s) = Inr (rstrip space s)"
| "py_rstrip space v = Inl AttributeError"

text \<open>\<open>sep.join(xs)\<close> for a list of strings.\<close>

fun py_join :: "string \<Rightarrow> string list \<Rightarrow> string" where
  "py_join sep [] = []"
| "py_join sep [x] = x"
| "py_join sep (x # y # ys) = x @ sep @ py_join sep (y # ys)"

text \<open>
  \<open>d.update(other)\<close> when \<open>other\<close> is a dict: \<open>for k in other: d[k] = other[k]\<close>. An
  existing key keeps its place and gets the new value, a new key is appended.
\<close>

definition dict_update_map :: "dict \<Rightarrow> dict \<Rightarrow> dict" where
  "dict_update_map d other =
     fold (\<lambda>k acc. case map_of other k of None \<Rightarrow> acc | Some v \<Rightarrow> AList.update k v acc)
          (map fst other) d"

text \<open>
  \<open>d.update(other)\<close> when \<open>other\<close> has no \<open>keys\<close> method: \<open>other\<close> is iterated and each
  element must itself be a sequence of length two, key then value; the key must be hashable.
\<close>

fun hashable :: "yaml \<Rightarrow> bool" where
  "hashable (YList xs) = False"
| "hashable (YMap kvs) = False"
| "hashable v = True"

fun update_pair :: "yaml \<Rightarrow> error + (yaml \<times> yaml)" where
  "update_pair (YList [k, v]) = (if hashable k then Inr (k, v) else Inl TypeError)"
| "update_pair (YList xs) = Inl ValueError"
| "update_pair (YStr [a, b]) = Inr (YStr [a], YStr [b])"
| "update_pair (YStr s) = Inl ValueError"
| "update_pair (YMap [(k1, v1), (k2, v2)]) = Inr (k1, k2)"
| "update_pair (YMap kvs) = Inl ValueError"
| "update_pair v = Inl TypeError"

fun dict_update_seq :: "dict \<Rightarrow> yaml list \<Rightarrow> error + dict" where
  "dict_update_seq d [] = Inr d"
| "dict_update_seq d (x # xs) =
     (case update_pair x of
        Inl e \<Rightarrow> Inl e
      | Inr (k, v) \<Rightarrow> dict_update_seq (AList.update k v d) xs)"

fun dict_update :: "dict \<Rightarrow> yaml \<Rightarrow> error + dict" where
  "dict_update d (YMap other) = Inr (dict_update_map d other)"
| "dict_update d other =
     (case py_iter other of Inl e \<Rightarrow> Inl e | Inr xs \<Rightarrow> dict_update_seq d xs)"

section \<open>The template key names\<close>

definition DEFINITION_VERSION :: string where "DEFINITION_VERSION = ''tosca_definitions_version''"
definition DEFAULT_NAMESPACE :: string where "DEFAULT_NAMESPACE = ''tosca_default_namespace''"
definition TEMPLATE_NAME :: string where "TEMPLATE_NAME = ''template_name''"
definition TOPOLOGY_TEMPLATE :: string where "TOPOLOGY_TEMPLATE = ''topology_template''"
definition TEMPLATE_AUTHOR :: string where "TEMPLATE_AUTHOR = ''template_author''"
definition TEMPLATE_VERSION :: string where "TEMPLATE_VERSION = ''template_version''"
definition DESCRIPTION :: string where "DESCRIPTION = ''description''"
definition IMPORTS :: string where "IMPORTS = ''imports''"
definition DSL_DEFINITIONS :: string where "DSL_DEFINITIONS = ''dsl_definitions''"
definition NODE_TYPES :: string where "NODE_TYPES = ''node_types''"
definition RELATIONSHIP_TYPES :: string where "RELATIONSHIP_TYPES = ''relationship_types''"
definition RELATIONSHIP_TEMPLATES :: string where
  "RELATIONSHIP_TEMPLATES = ''relationship_templates''"
definition CAPABILITY_TYPES :: string where "CAPABILITY_TYPES = ''capability_types''"
definition ARTIFACT_TYPES :: string where "ARTIFACT_TYPES = ''artifact_types''"
definition DATATYPE_DEFINITIONS :: string where "DATATYPE_DEFINITIONS = ''datatype_definitions''"

definition SECTIONS :: "string list" where
  "SECTIONS = [DEFINITION_VERSION, DEFAULT_NAMESPACE, TEMPLATE_NAME,
               TOPOLOGY_TEMPLATE, TEMPLATE_AUTHOR, TEMPLATE_VERSION,
               DESCRIPTION, IMPORTS, DSL_DEFINITIONS, NODE_TYPES,
               RELATIONSHIP_TYPES, RELATIONSHIP_TEMPLATES,
               CAPABILITY_TYPES, ARTIFACT_TYPES, DATATYPE_DEFINITIONS]"

definition VALID_TEMPLATE_VERSIONS :: "string list" where
  "VALID_TEMPLATE_VERSIONS = [''tosca_simple_yaml_1_0'']"

section \<open>The collaborators\<close>

text \<open>
  What the code calls and does not define: the document loader \<open>YAML_LOADER\<close>, the functions
  of \<open>os.path\<close>, the URL utilities, the constructors \<open>TopologyTemplate\<close> and \<open>ToscaGraph\<close>,
  and the whitespace class of \<open>str.rstrip\<close>. They are parameters. The loader, \<open>join_url\<close>
  and the two constructors may raise. \<open>'o\<close> is the type of the objects that the code only
  passes on.
\<close>

record 'o topology =
  topology_inputs :: 'o
  topology_nodetemplates :: 'o
  topology_relationship_templates :: 'o
  topology_outputs :: 'o

record 'o env =
  YAML_LOADER :: "string \<Rightarrow> bool \<Rightarrow> error + yaml"
  os_path_isfile :: "string \<Rightarrow> bool"
  os_path_abspath :: "string \<Rightarrow> string"
  os_path_dirname :: "string \<Rightarrow> string"
  os_path_join :: "string \<Rightarrow> string \<Rightarrow> string"
  os_path_isabs :: "string \<Rightarrow> bool"
  validate_url :: "string \<Rightarrow> bool"
  join_url :: "string \<Rightarrow> string \<Rightarrow> error + string"
  TopologyTemplate :: "yaml \<Rightarrow> dict \<Rightarrow> dict \<Rightarrow> 'o \<Rightarrow> error + 'o topology"
  ToscaGraph :: "'o \<Rightarrow> error + 'o"
  isspace :: "char \<Rightarrow> bool"

section \<open>The class ToscaTemplate\<close>

text \<open>
  The attributes that \<open>__init__\<close> assigns before it calls any method, and the object once it
  is built. The methods below read the first four attributes only, so they take either.
\<close>

record 'o template_data =
  tpl :: yaml
  path :: string
  a_file :: bool
  parsed_params :: 'o

record 'o tosca_template = "'o template_data" +
  version :: yaml
  relationship_types :: dict
  description :: string
  topology_template :: "'o topology"
  inputs :: 'o
  relationship_templates :: 'o
  nodetemplates :: 'o
  outputs :: 'o
  graph :: 'o

definition tpl_version :: "('o, 'z) template_data_scheme \<Rightarrow> error + yaml" where
  "tpl_version self = py_getitem (tpl self) DEFINITION_VERSION"

definition tpl_description ::
  "('o, 'e) env_scheme \<Rightarrow> ('o, 'z) template_data_scheme \<Rightarrow> error + string" where
  "tpl_description env self =
     (case py_getitem (tpl self) DESCRIPTION of
        Inl e \<Rightarrow> Inl e
      | Inr v \<Rightarrow> py_rstrip (isspace env) v)"

definition tpl_imports :: "('o, 'z) template_data_scheme \<Rightarrow> error + yaml" where
  "tpl_imports self =
     (case py_contains IMPORTS (tpl self) of
        Inl e \<Rightarrow> Inl e
      | Inr present \<Rightarrow> if present then py_getitem (tpl self) IMPORTS else Inr YNull)"

definition tpl_topology_template :: "('o, 'z) template_data_scheme \<Rightarrow> error + yaml" where
  "tpl_topology_template self = py_get (tpl self) TOPOLOGY_TEMPLATE"

definition validate_version :: "yaml \<Rightarrow> error + unit" where
  "validate_version ver =
     (if ver \<notin> set (map YStr VALID_TEMPLATE_VERSIONS)
      then Inl (InvalidTemplateVersion ver (py_join '', '' VALID_TEMPLATE_VERSIONS))
      else Inr ())"

text \<open>The loop of \<open>_validate_field\<close> over the names of the document.\<close>

fun validate_names :: "yaml list \<Rightarrow> error + unit" where
  "validate_names [] = Inr ()"
| "validate_names (name # names) =
     (if name \<notin> set (map YStr SECTIONS)
      then Inl (UnknownFieldError ''Template'' name)
      else validate_names names)"

definition validate_field :: "('o, 'z) template_data_scheme \<Rightarrow> error + unit" where
  "validate_field self =
     (case (case tpl_version self of
              Inl e \<Rightarrow> Inl e
            | Inr ver \<Rightarrow> validate_version ver) of
        Inl (KeyError k) \<Rightarrow> Inl (MissingRequiredFieldError ''Template'' DEFINITION_VERSION)
      | Inl e \<Rightarrow> Inl e
      | Inr u \<Rightarrow>
          (case py_iter (tpl self) of
             Inl e \<Rightarrow> Inl e
           | Inr names \<Rightarrow> validate_names names))"

text \<open>
  The part of the loop body of \<open>_get_custom_types\<close> that settles \<open>def_file\<close> and
  \<open>a_file\<close> for one entry of the imports. \<open>os.path.isfile\<close> and the URL check raise on an
  entry that is not a string.
\<close>

definition import_location ::
  "('o, 'e) env_scheme \<Rightarrow> bool \<Rightarrow> string \<Rightarrow> yaml \<Rightarrow> error + (string \<times> bool)" where
  "import_location env main_a_file self_path entry =
     (case entry of
        YStr definition \<Rightarrow>
          if main_a_file then
            if os_path_isfile env definition then Inr (definition, True)
            else
              let full_path =
                    os_path_join env (os_path_dirname env (os_path_abspath env self_path))
                      definition
              in if os_path_isfile env full_path then Inr (full_path, True)
                 else Inr (definition, False)
          else
            if \<not> validate_url env definition then
              if os_path_isabs env definition
              then Inl (ImportError
                     ''Absolute file name cannot be used for a URL-based input template.'')
              else (case join_url env self_path definition of
                      Inl e \<Rightarrow> Inl e
                    | Inr def_file \<Rightarrow> Inr (def_file, False))
            else Inr (definition, False)
      | _ \<Rightarrow> Inl TypeError)"

text \<open>
  The rest of the loop body: the import is loaded and its definitions of the requested
  kind, if it has any, are written over \<open>custom_defs\<close>.
\<close>

definition import_merge ::
  "('o, 'e) env_scheme \<Rightarrow> string \<Rightarrow> string \<times> bool \<Rightarrow> dict \<Rightarrow> error + dict" where
  "import_merge env type_def loc custom_defs =
     (case YAML_LOADER env (fst loc) (snd loc) of
        Inl e \<Rightarrow> Inl e
      | Inr custom_type \<Rightarrow>
          (case py_get custom_type type_def of
             Inl e \<Rightarrow> Inl e
           | Inr outer_custom_types \<Rightarrow>
               if truthy outer_custom_types
               then dict_update custom_defs outer_custom_types
               else Inr custom_defs))"

text \<open>
  The loop over the imports. The result comes with the loader calls that were made; an
  exception ends the loop.
\<close>

fun imports_loop ::
  "('o, 'e) env_scheme \<Rightarrow> bool \<Rightarrow> string \<Rightarrow> string \<Rightarrow> yaml list \<Rightarrow> dict
     \<Rightarrow> (error + dict) \<times> load_log" where
  "imports_loop env main_a_file self_path type_def [] custom_defs =
     (Inr custom_defs, [])"
| "imports_loop env main_a_file self_path type_def (entry # entries) custom_defs =
     (case import_location env main_a_file self_path entry of
        Inl e \<Rightarrow> (Inl e, [])
      | Inr loc \<Rightarrow>
          (case import_merge env type_def loc custom_defs of
             Inl e \<Rightarrow> (Inl e, [loc])
           | Inr custom_defs' \<Rightarrow>
               (case imports_loop env main_a_file self_path type_def entries
                       custom_defs' of
                  (r, loads) \<Rightarrow> (r, loc # loads))))"

definition get_custom_types ::
  "('o, 'e) env_scheme \<Rightarrow> ('o, 'z) template_data_scheme \<Rightarrow> string
     \<Rightarrow> (error + dict) \<times> load_log" where
  "get_custom_types env self type_def =
     (case tpl_imports self of
        Inl e \<Rightarrow> (Inl e, [])
      | Inr imports \<Rightarrow>
          (case (if truthy imports
                 then (case py_iter imports of
                         Inl e \<Rightarrow> (Inl e, [])
                       | Inr entries \<Rightarrow>
                           imports_loop env (os_path_isfile env (path self)) (path self)
                             type_def entries [])
                 else (Inr [], [])) of
             (Inl e, loads) \<Rightarrow> (Inl e, loads)
           | (Inr custom_defs, loads) \<Rightarrow>
               (case py_get (tpl self) type_def of
                  Inl e \<Rightarrow> (Inl e, loads)
                | Inr v \<Rightarrow>
                    let inner_custom_types = (if truthy v then v else YMap [])
                    in if truthy inner_custom_types
                       then (case dict_update custom_defs inner_custom_types of
                               Inl e \<Rightarrow> (Inl e, loads)
                             | Inr custom_defs' \<Rightarrow> (Inr custom_defs', loads))
                       else (Inr custom_defs, loads))))"

definition tpl_relationship_types ::
  "('o, 'e) env_scheme \<Rightarrow> ('o, 'z) template_data_scheme \<Rightarrow> (error + dict) \<times> load_log" where
  "tpl_relationship_types env self = get_custom_types env self RELATIONSHIP_TYPES"

text \<open>The loop of \<open>_get_all_custom_defs\<close> over the four kinds of types.\<close>

fun all_custom_defs_loop ::
  "('o, 'e) env_scheme \<Rightarrow> ('o, 'z) template_data_scheme \<Rightarrow> string list \<Rightarrow> dict
     \<Rightarrow> (error + dict) \<times> load_log" where
  "all_custom_defs_loop env self [] custom_defs = (Inr custom_defs, [])"
| "all_custom_defs_loop env self (ty # types) custom_defs =
     (case get_custom_types env self ty of
        (Inl e, loads) \<Rightarrow> (Inl e, loads)
      | (Inr custom_def, loads) \<Rightarrow>
          (case all_custom_defs_loop env self types
                  (if custom_def \<noteq> [] then dict_update_map custom_defs custom_def
                   else custom_defs) of
             (r, loads') \<Rightarrow> (r, loads @ loads')))"

definition get_all_custom_defs ::
  "('o, 'e) env_scheme \<Rightarrow> ('o, 'z) template_data_scheme \<Rightarrow> (error + dict) \<times> load_log" where
  "get_all_custom_defs env self =
     all_custom_defs_loop env self
       [NODE_TYPES, CAPABILITY_TYPES, RELATIONSHIP_TYPES, DATATYPE_DEFINITIONS] []"

text \<open>
  \<open>_topology_template\<close>: the arguments are evaluated from left to right, then the
  constructor is called. The relationship types are the attribute assigned just before.
\<close>

definition topology_template_of ::
  "('o, 'e) env_scheme \<Rightarrow> ('o, 'z) template_data_scheme \<Rightarrow> dict
     \<Rightarrow> (error + 'o topology) \<times> load_log" where
  "topology_template_of env self self_relationship_types =
     (case tpl_topology_template self of
        Inl e \<Rightarrow> (Inl e, [])
      | Inr topology_tpl \<Rightarrow>
          (case get_all_custom_defs env self of
             (Inl e, loads) \<Rightarrow> (Inl e, loads)
           | (Inr custom_defs, loads) \<Rightarrow>
               (TopologyTemplate env topology_tpl custom_defs self_relationship_types
                  (parsed_params self), loads)))"

text \<open>\<open>__init__\<close>: the object, or the exception, with every call of the loader.\<close>

definition ToscaTemplate_init ::
  "('o, 'e) env_scheme \<Rightarrow> string \<Rightarrow> bool \<Rightarrow> 'o \<Rightarrow> (error + 'o tosca_template) \<times> load_log" where
  "ToscaTemplate_init env p is_file params =
     (case YAML_LOADER env p is_file of
        Inl e \<Rightarrow> (Inl e, [(p, is_file)])
      | Inr doc \<Rightarrow>
          let self = \<lparr>tpl = doc, path = p, a_file = is_file, parsed_params = params\<rparr>
          in (case validate_field self of
                Inl e \<Rightarrow> (Inl e, [(p, is_file)])
              | Inr u \<Rightarrow>
          (case tpl_version self of
             Inl e \<Rightarrow> (Inl e, [(p, is_file)])
           | Inr ver \<Rightarrow>
          (case tpl_relationship_types env self of
             (Inl e, loads1) \<Rightarrow> (Inl e, (p, is_file) # loads1)
           | (Inr rel_types, loads1) \<Rightarrow>
          (case tpl_description env self of
             Inl e \<Rightarrow> (Inl e, (p, is_file) # loads1)
           | Inr descr \<Rightarrow>
          (case topology_template_of env self rel_types of
             (Inl e, loads2) \<Rightarrow> (Inl e, (p, is_file) # loads1 @ loads2)
           | (Inr topo, loads2) \<Rightarrow>
          (case ToscaGraph env (topology_nodetemplates topo) of
             Inl e \<Rightarrow> (Inl e, (p, is_file) # loads1 @ loads2)
           | Inr g \<Rightarrow>
               (Inr \<lparr>tpl = doc, path = p, a_file = is_file, parsed_params = params,
                      version = ver, relationship_types = rel_types, description = descr,
                      topology_template = topo,
                      inputs = topology_inputs topo,
                      relationship_templates = topology_relationship_templates topo,
                      nodetemplates = topology_nodetemplates topo,
                      outputs = topology_outputs topo,
                      graph = g\<rparr>,
                (p, is_file) # loads1 @ loads2))))))))"

section \<open>Notions used to state the properties\<close>

text \<open>One import, resolved and then loaded: what the loop body has in \<open>custom_type\<close>.\<close>

definition load_import ::
  "('o, 'e) env_scheme \<Rightarrow> bool \<Rightarrow> string \<Rightarrow> yaml \<Rightarrow> error + yaml" where
  "load_import env main_a_file self_path entry =
     (case import_location env main_a_file self_path entry of
        Inl e \<Rightarrow> Inl e
      | Inr loc \<Rightarrow> YAML_LOADER env (fst loc) (snd loc))"

text \<open>
  The definitions that a document gives for one kind of types, as a finite map: the entries
  of the mapping under that key, and nothing when the key is absent or its value is not a
  mapping.
\<close>

definition section_of :: "yaml \<Rightarrow> string \<Rightarrow> (yaml \<rightharpoonup> yaml)" where
  "section_of doc type_def =
     (case doc of
        YMap kvs \<Rightarrow> (case map_of kvs (YStr type_def) of
                       Some (YMap defs) \<Rightarrow> map_of defs
                     | _ \<Rightarrow> Map.empty)
      | _ \<Rightarrow> Map.empty)"

text \<open>
  The document is a mapping and what it has under the key is, as the data model says, a
  mapping of definitions, or the key is absent or empty.
\<close>

definition mapping_section :: "yaml \<Rightarrow> string \<Rightarrow> bool" where
  "mapping_section doc type_def =
     (case doc of
        YMap kvs \<Rightarrow> (case map_of kvs (YStr type_def) of
                       None \<Rightarrow> True
                     | Some (YMap defs) \<Rightarrow> True
                     | Some v \<Rightarrow> \<not> truthy v)
      | _ \<Rightarrow> False)"

text \<open>
  The last three lines of \<open>_get_custom_types\<close>, for a template that is a dict: the
  template's own definitions are written over \<open>custom_defs\<close>. The loop body does the same
  with the imported document.
\<close>

definition own_merge :: "dict \<Rightarrow> string \<Rightarrow> dict \<Rightarrow> error + dict" where
  "own_merge root type_def custom_defs =
     (case map_of root (YStr type_def) of
        None \<Rightarrow> Inr custom_defs
      | Some v \<Rightarrow> if truthy v then dict_update custom_defs v else Inr custom_defs)"

text \<open>
  The three rows of the decision table for a template whose own location is a local file:
  the import as it is written if that is a file, else the import joined to the directory of
  the template if that is a file, else the import as it is written, not as a file.
\<close>

definition local_location :: "('o, 'e) env_scheme \<Rightarrow> string \<Rightarrow> string \<Rightarrow> string \<times> bool" where
  "local_location env self_path d =
     (if os_path_isfile env d then (d, True)
      else if os_path_isfile env
                (os_path_join env (os_path_dirname env (os_path_abspath env self_path)) d)
      then (os_path_join env (os_path_dirname env (os_path_abspath env self_path)) d, True)
      else (d, False))"

section \<open>A sample environment\<close>

text \<open>
  A small file system and a few documents, on which the theorems below are instantiated:
  POSIX path functions for paths without \<open>.\<close> and \<open>..\<close>, a URL check for the two web
  schemes, and a loader that finds its documents in a table.
\<close>

definition demo_isabs :: "string \<Rightarrow> bool" where
  "demo_isabs s = (take 1 s = ''/'')"

definition demo_join :: "string \<Rightarrow> string \<Rightarrow> string" where
  "demo_join a b =
     (if take 1 b = ''/'' then b
      else if a = [] \<or> last a = CHR ''/'' then a @ b
      else a @ ''/'' @ b)"

definition demo_dirname :: "string \<Rightarrow> string" where
  "demo_dirname p =
     (let head = rev (dropWhile (\<lambda>c. c \<noteq> CHR ''/'') (rev p))
      in if head \<noteq> [] \<and> \<not> list_all (\<lambda>c. c = CHR ''/'') head
         then rstrip (\<lambda>c. c = CHR ''/'') head
         else head)"

definition demo_abspath :: "string \<Rightarrow> string" where
  "demo_abspath p = (if demo_isabs p then p else demo_join ''/work'' p)"

definition demo_validate_url :: "string \<Rightarrow> bool" where
  "demo_validate_url s =
     (take 7 s = ''http://'' \<and> 7 < length s \<or> take 8 s = ''https://'' \<and> 8 < length s)"

definition demo_join_url :: "string \<Rightarrow> string \<Rightarrow> error + string" where
  "demo_join_url base rel =
     (if \<not> demo_validate_url base then Inl ValueError
      else Inr (rev (dropWhile (\<lambda>c. c \<noteq> CHR ''/'') (rev base)) @ rel))"

definition demo_isspace :: "char \<Rightarrow> bool" where
  "demo_isspace c = (c \<in> set [CHR '' '', CHR 0x09, CHR 0x0A, CHR 0x0B, CHR 0x0C, CHR 0x0D])"

definition demo_version :: "yaml \<times> yaml" where
  "demo_version = (YStr ''tosca_definitions_version'', YStr ''tosca_simple_yaml_1_0'')"

definition demo_def :: "string \<Rightarrow> yaml" where
  "demo_def origin = YMap [(YStr ''description'', YStr origin)]"

definition demo_doc_A :: yaml where
  "demo_doc_A = YMap
     [(YStr ''node_types'', YMap [(YStr ''X'', demo_def ''A''), (YStr ''P'', demo_def ''A'')]),
      (YStr ''artifact_types'', YMap [(YStr ''Art'', demo_def ''A'')])]"

definition demo_doc_B :: yaml where
  "demo_doc_B = YMap
     [(YStr ''node_types'', YMap [(YStr ''X'', demo_def ''B''), (YStr ''Y'', demo_def ''B'')]),
      (YStr ''capability_types'', YMap [(YStr ''Y'', demo_def ''B cap'')])]"

definition demo_doc_C :: yaml where
  "demo_doc_C = YMap [(YStr ''relationship_types'', YMap [(YStr ''R'', demo_def ''C'')])]"

definition demo_doc_D :: yaml where
  "demo_doc_D = YMap [(YStr ''datatype_definitions'', YMap [(YStr ''R'', demo_def ''D'')])]"

definition demo_root :: yaml where
  "demo_root = YMap
     [demo_version,
      (YStr ''description'', YStr ''Demo template.  ''),
      (YStr ''imports'', YList [YStr ''A.yaml'', YStr ''B.yaml'']),
      (YStr ''node_types'', YMap [(YStr ''Y'', demo_def ''root'')]),
      (YStr ''topology_template'', YMap [])]"

definition demo_root_three :: yaml where
  "demo_root_three = YMap
     [demo_version,
      (YStr ''imports'', YList [YStr ''C.yaml'', YStr ''A.yaml'', YStr ''http://host/D.yaml''])]"

definition demo_root_remote :: yaml where
  "demo_root_remote = YMap
     [demo_version,
      (YStr ''imports'', YList [YStr ''http://host/D.yaml'', YStr ''types.yaml''])]"

definition demo_root_abs :: yaml where
  "demo_root_abs = YMap
     [demo_version,
      (YStr ''imports'', YList [YStr ''types.yaml'', YStr ''/proj/A.yaml'', YStr ''B.yaml''])]"

definition demo_root_stdin :: yaml where
  "demo_root_stdin = YMap [demo_version, (YStr ''imports'', YList [YStr ''/proj/A.yaml''])]"

definition demo_root_plain :: yaml where
  "demo_root_plain = YMap
     [demo_version,
      (YStr ''imports'', YList []),
      (YStr ''node_types'', YMap [(YStr ''Y'', demo_def ''root'')])]"

definition demo_root_unknown :: yaml where
  "demo_root_unknown = YMap
     [demo_version, (YStr ''description'', YStr ''d''),
      (YStr ''datatype_definitions'', YMap []), (YStr ''datatype_defs'', YInt 1),
      (YStr ''node_types'', YMap []), (YStr ''bar'', YInt 2)]"

definition demo_root_unversioned :: yaml where
  "demo_root_unversioned = YMap [(YStr ''description'', YStr ''d''), (YStr ''foo'', YInt 1)]"

definition demo_root_old :: yaml where
  "demo_root_old = YMap
     [(YStr ''tosca_definitions_version'', YStr ''tosca_simple_yaml_0_9''),
      (YStr ''description'', YStr ''d'')]"

definition demo_root_datatypes :: yaml where
  "demo_root_datatypes = YMap
     [demo_version,
      (YStr ''node_types'', YMap [(YStr ''T'', demo_def ''node''), (YStr ''N'', demo_def ''node'')]),
      (YStr ''artifact_types'', YMap [(YStr ''Art'', demo_def ''artifact'')]),
      (YStr ''datatype_definitions'', YMap [(YStr ''T'', demo_def ''datatype'')])]"

definition demo_root_undescribed :: yaml where
  "demo_root_undescribed = YMap [demo_version, (YStr ''node_types'', YMap [])]"

definition demo_files :: "((string \<times> bool) \<times> yaml) list" where
  "demo_files =
     [((''/proj/root.yaml'', True), demo_root),
      ((''/proj/A.yaml'', True), demo_doc_A),
      ((''/proj/B.yaml'', True), demo_doc_B),
      ((''C.yaml'', True), demo_doc_C),
      ((''http://host/D.yaml'', False), demo_doc_D),
      ((''https://host/types.yaml'', False), demo_doc_A),
      ((''https://host/root.yaml'', False), demo_root_remote),
      ((''https://host/abs.yaml'', False), demo_root_abs),
      ((''/dev/stdin'', True), demo_root_stdin),
      ((''/proj/unknown.yaml'', True), demo_root_unknown),
      ((''/proj/unversioned.yaml'', True), demo_root_unversioned),
      ((''/proj/undescribed.yaml'', True), demo_root_undescribed),
      ((''/proj/datatypes.yaml'', True), demo_root_datatypes)]"

definition demo_loader :: "string \<Rightarrow> bool \<Rightarrow> error + yaml" where
  "demo_loader location is_file =
     (case map_of demo_files (location, is_file) of
        None \<Rightarrow> Inl (ExternalError location)
      | Some doc \<Rightarrow> Inr doc)"

definition demo_env :: "string env" where
  "demo_env =
     \<lparr>YAML_LOADER = demo_loader,
      os_path_isfile = (\<lambda>p. p \<in> set [''/proj/root.yaml'', ''/proj/A.yaml'', ''/proj/B.yaml'',
                                        ''C.yaml'', ''/proj/unknown.yaml'',
                                        ''/proj/unversioned.yaml'', ''/proj/undescribed.yaml'',
                                        ''/proj/datatypes.yaml'']),
      os_path_abspath = demo_abspath,
      os_path_dirname = demo_dirname,
      os_path_join = demo_join,
      os_path_isabs = demo_isabs,
      validate_url = demo_validate_url,
      join_url = demo_join_url,
      TopologyTemplate = (\<lambda>topology_tpl custom_defs rel_types params.
         Inr \<lparr>topology_inputs = ''inputs'', topology_nodetemplates = ''nodetemplates'',
              topology_relationship_templates = ''relationship_templates'',
              topology_outputs = ''outputs''\<rparr>),
      ToscaGraph = (\<lambda>nodes. Inr ''graph''),
      isspace = demo_isspace\<rparr>"

definition demo_self :: "string \<Rightarrow> bool \<Rightarrow> yaml \<Rightarrow> string template_data" where
  "demo_self p is_file doc = \<lparr>tpl = doc, path = p, a_file = is_file, parsed_params = ''params''\<rparr>"

section \<open>Dictionaries\<close>

lemmas key_names =
  DEFINITION_VERSION_def DEFAULT_NAMESPACE_def TEMPLATE_NAME_def TOPOLOGY_TEMPLATE_def
  TEMPLATE_AUTHOR_def TEMPLATE_VERSION_def DESCRIPTION_def IMPORTS_def DSL_DEFINITIONS_def
  NODE_TYPES_def RELATIONSHIP_TYPES_def RELATIONSHIP_TEMPLATES_def CAPABILITY_TYPES_def
  ARTIFACT_TYPES_def DATATYPE_DEFINITIONS_def

lemmas demo_defs =
  demo_env_def demo_loader_def demo_files_def demo_self_def demo_version_def demo_def_def
  demo_isabs_def demo_join_def demo_dirname_def demo_abspath_def demo_validate_url_def
  demo_join_url_def demo_isspace_def rstrip_def

lemma fold_update_restrict:
  "map_of (fold (\<lambda>k acc. case map_of other k of None \<Rightarrow> acc | Some v \<Rightarrow> AList.update k v acc) ks d)
     = map_of d ++ (map_of other |` set ks)"
proof (induction ks arbitrary: d)
  case Nil
  show ?case by simp
next
  case (Cons k ks)
  show ?case
  proof (cases "map_of other k")
    case None
    then have "map_of other |` set (k # ks) = map_of other |` set ks"
      by (auto simp: restrict_map_def fun_eq_iff)
    with None Cons show ?thesis by simp
  next
    case (Some v)
    let ?f = "\<lambda>k acc. case map_of other k of None \<Rightarrow> acc | Some v \<Rightarrow> AList.update k v acc"
    have "map_of (fold ?f (k # ks) d) = map_of (fold ?f ks (AList.update k v d))"
      using Some by simp
    also have "\<dots> = map_of (AList.update k v d) ++ (map_of other |` set ks)"
      by (rule Cons.IH)
    also have "\<dots> = map_of d ++ (map_of other |` set (k # ks))"
      using Some
      by (auto simp: update_conv' restrict_map_def fun_eq_iff map_add_def split: option.splits)
    finally show ?thesis .
  qed
qed

lemma map_of_dict_update_map: "map_of (dict_update_map d other) = map_of d ++ map_of other"
proof -
  have "map_of other |` set (map fst other) = map_of other"
    by (auto simp: restrict_map_def fun_eq_iff map_of_eq_None_iff[symmetric])
  then show ?thesis
    by (simp add: dict_update_map_def fold_update_restrict)
qed

lemma dict_update_map_Nil: "dict_update_map d [] = d"
  by (simp add: dict_update_map_def)

lemma fold_update_fresh:
  "distinct (map fst (d @ kvs)) \<Longrightarrow> set kvs \<subseteq> set other \<Longrightarrow> distinct (map fst other) \<Longrightarrow>
   fold (\<lambda>k acc. case map_of other k of None \<Rightarrow> acc | Some v \<Rightarrow> AList.update k v acc) (map fst kvs) d = d @ kvs"
proof (induction kvs arbitrary: d)
  case Nil
  then show ?case by simp
next
  case (Cons kv kvs)
  obtain k v where kv: "kv = (k, v)" by (cases kv)
  from Cons.prems kv have m: "map_of other k = Some v" by simp
  from Cons.prems kv have "k \<notin> fst ` set d" by auto
  then have u: "AList.update k v d = d @ [(k, v)]"
    by (induction d) auto
  have "fold (\<lambda>k acc. case map_of other k of None \<Rightarrow> acc | Some v \<Rightarrow> AList.update k v acc) (map fst kvs) (d @ [(k, v)]) = (d @ [(k, v)]) @ kvs"
    using Cons.prems kv by (intro Cons.IH) auto
  with m u kv show ?case by simp
qed

lemma dict_update_map_empty: "distinct (map fst other) \<Longrightarrow> dict_update_map [] other = other"
  using fold_update_fresh[of "[]" other other] by (simp add: dict_update_map_def)

section \<open>Field validation\<close>

lemma valid_versions_joined: "py_join '', '' VALID_TEMPLATE_VERSIONS = ''tosca_simple_yaml_1_0''"
  by (simp add: VALID_TEMPLATE_VERSIONS_def)

lemma validate_names_ok:
  "set names \<subseteq> YStr ` set SECTIONS \<Longrightarrow> validate_names names = Inr ()"
  by (induction names) auto

lemma validate_names_first:
  "set pre \<subseteq> YStr ` set SECTIONS \<Longrightarrow> k \<notin> YStr ` set SECTIONS \<Longrightarrow>
   validate_names (pre @ k # post) = Inl (UnknownFieldError ''Template'' k)"
  by (induction pre) auto

lemma validate_field_missing:
  "tpl self = YMap kvs \<Longrightarrow> map_of kvs (YStr DEFINITION_VERSION) = None \<Longrightarrow>
   validate_field self = Inl (MissingRequiredFieldError ''Template'' DEFINITION_VERSION)"
  by (simp add: validate_field_def tpl_version_def)

lemma validate_field_invalid:
  "tpl self = YMap kvs \<Longrightarrow> map_of kvs (YStr DEFINITION_VERSION) = Some v \<Longrightarrow>
   v \<notin> YStr ` set VALID_TEMPLATE_VERSIONS \<Longrightarrow>
   validate_field self = Inl (InvalidTemplateVersion v ''tosca_simple_yaml_1_0'')"
  by (simp add: validate_field_def tpl_version_def validate_version_def valid_versions_joined)

lemma validate_field_names:
  "tpl self = YMap kvs \<Longrightarrow> map_of kvs (YStr DEFINITION_VERSION) = Some v \<Longrightarrow>
   v \<in> YStr ` set VALID_TEMPLATE_VERSIONS \<Longrightarrow>
   validate_field self = validate_names (map fst kvs)"
  by (simp add: validate_field_def tpl_version_def validate_version_def)

text \<open>
  C7. For a document that is a mapping, field validation fails with
  \<open>MissingRequiredFieldError\<close> naming the key \<open>tosca_definitions_version\<close> when that key
  is absent; it fails with \<open>InvalidTemplateVersion\<close>, carrying the offending value and the
  accepted versions, when the key is there with a value outside the accepted set, which is
  the single literal \<open>tosca_simple_yaml_1_0\<close>; and it returns normally when the version is
  accepted and every key is one of \<open>SECTIONS\<close>. The method returns nothing and changes
  nothing: its model has no other output than the exception.
\<close>

theorem validate_field_outcomes:
  assumes "tpl self = YMap kvs"
  shows "(map_of kvs (YStr DEFINITION_VERSION) = None \<longrightarrow>
            validate_field self
              = Inl (MissingRequiredFieldError ''Template'' ''tosca_definitions_version''))
       \<and> (\<forall>v. map_of kvs (YStr DEFINITION_VERSION) = Some v
               \<and> v \<notin> YStr ` set VALID_TEMPLATE_VERSIONS \<longrightarrow>
            validate_field self = Inl (InvalidTemplateVersion v ''tosca_simple_yaml_1_0''))
       \<and> (\<forall>v. map_of kvs (YStr DEFINITION_VERSION) = Some v
               \<and> v \<in> YStr ` set VALID_TEMPLATE_VERSIONS
               \<and> set (map fst kvs) \<subseteq> YStr ` set SECTIONS \<longrightarrow>
            validate_field self = Inr ())
       \<and> VALID_TEMPLATE_VERSIONS = [''tosca_simple_yaml_1_0'']"
  using assms validate_field_missing[of self kvs] validate_field_invalid[of self kvs]
    validate_field_names[of self kvs] validate_names_ok[of "map fst kvs"]
  by (auto simp: DEFINITION_VERSION_def VALID_TEMPLATE_VERSIONS_def)

theorem validate_field_outcomes_witness:
  "validate_field (demo_self ''/proj/unversioned.yaml'' True demo_root_unversioned)
     = Inl (MissingRequiredFieldError ''Template'' ''tosca_definitions_version'')
   \<and> validate_field (demo_self ''/proj/old.yaml'' True demo_root_old)
     = Inl (InvalidTemplateVersion (YStr ''tosca_simple_yaml_0_9'') ''tosca_simple_yaml_1_0'')
   \<and> validate_field (demo_self ''/proj/root.yaml'' True demo_root) = Inr ()
   \<and> validate_field (demo_self ''/proj/datatypes.yaml'' True demo_root_datatypes) = Inr ()"
proof -
  let ?k4 = "[demo_version,
              (YStr ''node_types'',
               YMap [(YStr ''T'', demo_def ''node''), (YStr ''N'', demo_def ''node'')]),
              (YStr ''artifact_types'', YMap [(YStr ''Art'', demo_def ''artifact'')]),
              (YStr ''datatype_definitions'', YMap [(YStr ''T'', demo_def ''datatype'')])]"
  let ?k1 = "[(YStr ''description'', YStr ''d''), (YStr ''foo'', YInt 1)]"
  let ?k2 = "[(YStr ''tosca_definitions_version'', YStr ''tosca_simple_yaml_0_9''),
              (YStr ''description'', YStr ''d'')]"
  let ?k3 = "[demo_version,
              (YStr ''description'', YStr ''Demo template.  ''),
              (YStr ''imports'', YList [YStr ''A.yaml'', YStr ''B.yaml'']),
              (YStr ''node_types'', YMap [(YStr ''Y'', demo_def ''root'')]),
              (YStr ''topology_template'', YMap [])]"
  have t1: "tpl (demo_self ''/proj/unversioned.yaml'' True demo_root_unversioned) = YMap ?k1"
    by (simp add: demo_self_def demo_root_unversioned_def)
  have n1: "map_of ?k1 (YStr DEFINITION_VERSION) = None"
    by (simp add: DEFINITION_VERSION_def)
  have r1: "validate_field (demo_self ''/proj/unversioned.yaml'' True demo_root_unversioned)
     = Inl (MissingRequiredFieldError ''Template'' ''tosca_definitions_version'')"
    using validate_field_outcomes[OF t1] n1 by blast
  have t2: "tpl (demo_self ''/proj/old.yaml'' True demo_root_old) = YMap ?k2"
    by (simp add: demo_self_def demo_root_old_def)
  have n2: "map_of ?k2 (YStr DEFINITION_VERSION) = Some (YStr ''tosca_simple_yaml_0_9'')"
    by (simp add: DEFINITION_VERSION_def)
  have m2: "YStr ''tosca_simple_yaml_0_9'' \<notin> YStr ` set VALID_TEMPLATE_VERSIONS"
    by (simp add: VALID_TEMPLATE_VERSIONS_def)
  have r2: "validate_field (demo_self ''/proj/old.yaml'' True demo_root_old)
     = Inl (InvalidTemplateVersion (YStr ''tosca_simple_yaml_0_9'') ''tosca_simple_yaml_1_0'')"
    using validate_field_outcomes[OF t2] n2 m2 by blast
  have t3: "tpl (demo_self ''/proj/root.yaml'' True demo_root) = YMap ?k3"
    by (simp add: demo_self_def demo_root_def)
  have n3: "map_of ?k3 (YStr DEFINITION_VERSION) = Some (YStr ''tosca_simple_yaml_1_0'')"
    by (simp add: DEFINITION_VERSION_def demo_version_def)
  have m3: "YStr ''tosca_simple_yaml_1_0'' \<in> YStr ` set VALID_TEMPLATE_VERSIONS"
    by (simp add: VALID_TEMPLATE_VERSIONS_def)
  have k3: "set (map fst ?k3) \<subseteq> YStr ` set SECTIONS"
    by (simp add: SECTIONS_def key_names demo_version_def)
  have r3: "validate_field (demo_self ''/proj/root.yaml'' True demo_root) = Inr ()"
    using validate_field_outcomes[OF t3] n3 m3 k3 by blast
  have t4: "tpl (demo_self ''/proj/datatypes.yaml'' True demo_root_datatypes) = YMap ?k4"
    by (simp add: demo_self_def demo_root_datatypes_def)
  have n4: "map_of ?k4 (YStr DEFINITION_VERSION) = Some (YStr ''tosca_simple_yaml_1_0'')"
    by (simp add: DEFINITION_VERSION_def demo_version_def)
  have k4: "set (map fst ?k4) \<subseteq> YStr ` set SECTIONS"
    by (simp add: SECTIONS_def key_names demo_version_def)
  have r4: "validate_field (demo_self ''/proj/datatypes.yaml'' True demo_root_datatypes) = Inr ()"
    using validate_field_outcomes[OF t4] n4 m3 k4 by blast
  from r1 r2 r3 r4 show ?thesis by simp
qed

text \<open>
  C6, as the code has it. The version is checked before the names: a document without the
  version key, or with a version that is not accepted, fails on that account, whatever other
  keys it has. When the document is a mapping whose version is accepted, \<open>__init__\<close> fails
  with \<open>UnknownFieldError\<close> naming the first key, in the order of the document, that is not
  one of \<open>SECTIONS\<close>; the keys after it are not looked at, and the loader has been called
  once, for the template itself.
\<close>

theorem unknown_field_first:
  assumes "YAML_LOADER env p f = Inr (YMap kvs)"
    and "map_of kvs (YStr DEFINITION_VERSION) = Some v"
    and "v \<in> YStr ` set VALID_TEMPLATE_VERSIONS"
    and "map fst kvs = pre @ k # post"
    and "set pre \<subseteq> YStr ` set SECTIONS"
    and "k \<notin> YStr ` set SECTIONS"
  shows "ToscaTemplate_init env p f params = (Inl (UnknownFieldError ''Template'' k), [(p, f)])
       \<and> validate_field \<lparr>tpl = YMap kvs, path = p, a_file = f, parsed_params = params\<rparr>
           = Inl (UnknownFieldError ''Template'' k)"
proof -
  let ?self = "\<lparr>tpl = YMap kvs, path = p, a_file = f, parsed_params = params\<rparr>"
  have "validate_field ?self = validate_names (map fst kvs)"
    using assms(2,3) by (intro validate_field_names) simp_all
  with assms(4-6) have "validate_field ?self = Inl (UnknownFieldError ''Template'' k)"
    by (simp add: validate_names_first)
  with assms(1) show ?thesis
    by (simp add: ToscaTemplate_init_def)
qed

theorem unknown_field_first_witness:
  "ToscaTemplate_init demo_env ''/proj/unknown.yaml'' True ''params''
     = (Inl (UnknownFieldError ''Template'' (YStr ''datatype_defs'')),
        [(''/proj/unknown.yaml'', True)])"
proof -
  let ?kvs = "[demo_version, (YStr ''description'', YStr ''d''),
               (YStr ''datatype_definitions'', YMap []), (YStr ''datatype_defs'', YInt 1),
               (YStr ''node_types'', YMap []), (YStr ''bar'', YInt 2)]"
  have l: "YAML_LOADER demo_env ''/proj/unknown.yaml'' True = Inr (YMap ?kvs)"
    by (simp add: demo_env_def demo_loader_def demo_files_def demo_root_unknown_def)
  have n: "map_of ?kvs (YStr DEFINITION_VERSION) = Some (YStr ''tosca_simple_yaml_1_0'')"
    by (simp add: DEFINITION_VERSION_def demo_version_def)
  have m: "YStr ''tosca_simple_yaml_1_0'' \<in> YStr ` set VALID_TEMPLATE_VERSIONS"
    by (simp add: VALID_TEMPLATE_VERSIONS_def)
  have ks: "map fst ?kvs = [YStr ''tosca_definitions_version'', YStr ''description'',
                            YStr ''datatype_definitions'']
              @ YStr ''datatype_defs'' # [YStr ''node_types'', YStr ''bar'']"
    by (simp add: demo_version_def)
  have pre: "set [YStr ''tosca_definitions_version'', YStr ''description'',
                  YStr ''datatype_definitions'']
               \<subseteq> YStr ` set SECTIONS"
    by (simp add: SECTIONS_def key_names)
  have k: "YStr ''datatype_defs'' \<notin> YStr ` set SECTIONS"
    by (simp add: SECTIONS_def key_names)
  from unknown_field_first[OF l n m ks pre k, of "''params''"] show ?thesis by blast
qed

text \<open>
  The claim C6 as the specification states it fails on a document that has an unknown key
  and no version key: the exception is \<open>MissingRequiredFieldError\<close>.
\<close>

theorem unknown_field_masked_counterexample:
  "YAML_LOADER demo_env ''/proj/unversioned.yaml'' True
     = Inr (YMap [(YStr ''description'', YStr ''d''), (YStr ''foo'', YInt 1)])
   \<and> YStr ''foo'' \<notin> YStr ` set SECTIONS
   \<and> fst (ToscaTemplate_init demo_env ''/proj/unversioned.yaml'' True ''params'')
       = Inl (MissingRequiredFieldError ''Template'' ''tosca_definitions_version'')
   \<and> fst (ToscaTemplate_init demo_env ''/proj/unversioned.yaml'' True ''params'')
       \<noteq> Inl (UnknownFieldError ''Template'' (YStr ''foo''))"
proof -
  have l: "YAML_LOADER demo_env ''/proj/unversioned.yaml'' True
     = Inr (YMap [(YStr ''description'', YStr ''d''), (YStr ''foo'', YInt 1)])"
    by (simp add: demo_env_def demo_loader_def demo_files_def demo_root_unversioned_def)
  have s: "YStr ''foo'' \<notin> YStr ` set SECTIONS"
    by (simp add: SECTIONS_def key_names)
  have v: "validate_field \<lparr>tpl = YMap [(YStr ''description'', YStr ''d''), (YStr ''foo'', YInt 1)],
        path = ''/proj/unversioned.yaml'', a_file = True, parsed_params = ''params''\<rparr>
     = Inl (MissingRequiredFieldError ''Template'' ''tosca_definitions_version'')"
    by (simp add: validate_field_def tpl_version_def DEFINITION_VERSION_def)
  have i: "fst (ToscaTemplate_init demo_env ''/proj/unversioned.yaml'' True ''params'')
       = Inl (MissingRequiredFieldError ''Template'' ''tosca_definitions_version'')"
    unfolding ToscaTemplate_init_def l by (simp add: v)
  from l s i show ?thesis by simp
qed

section \<open>The loop over the imports\<close>

lemma tpl_imports_map:
  "tpl self = YMap root \<Longrightarrow>
   tpl_imports self = Inr (case map_of root (YStr IMPORTS) of None \<Rightarrow> YNull | Some v \<Rightarrow> v)"
proof -
  assume r: "tpl self = YMap root"
  show ?thesis
  proof (cases "map_of root (YStr IMPORTS)")
    case None
    then have "YStr IMPORTS \<notin> fst ` set root" by (simp add: map_of_eq_None_iff)
    with r None show ?thesis by (simp add: tpl_imports_def)
  next
    case (Some v)
    then have "YStr IMPORTS \<in> fst ` set root" by (metis map_of_eq_None_iff option.distinct(1))
    with r Some show ?thesis by (simp add: tpl_imports_def)
  qed
qed

lemma get_custom_types_list:
  assumes "tpl self = YMap root" and "map_of root (YStr IMPORTS) = Some (YList ds)"
  shows "get_custom_types env self td =
     (case imports_loop env (os_path_isfile env (path self)) (path self) td ds [] of
        (Inl e, loads) \<Rightarrow> (Inl e, loads)
      | (Inr custom_defs, loads) \<Rightarrow> (own_merge root td custom_defs, loads))"
proof (cases ds)
  case Nil
  with assms show ?thesis
    by (auto simp: get_custom_types_def tpl_imports_map own_merge_def Let_def
             split: option.splits sum.splits)
next
  case (Cons d ds')
  with assms show ?thesis
    by (auto simp: get_custom_types_def tpl_imports_map own_merge_def Let_def
             simp del: imports_loop.simps split: option.splits sum.splits prod.splits)
qed

lemma get_custom_types_no_imports:
  assumes "tpl self = YMap root"
    and "map_of root (YStr IMPORTS) = None \<or> map_of root (YStr IMPORTS) = Some (YList [])"
  shows "get_custom_types env self td = (own_merge root td [], [])"
  using assms
  by (auto simp: get_custom_types_def tpl_imports_map own_merge_def Let_def
           split: option.splits sum.splits)

lemma imports_loop_append:
  "imports_loop env m p td (xs @ ys) cd =
     (case imports_loop env m p td xs cd of
        (Inl e, loads) \<Rightarrow> (Inl e, loads)
      | (Inr cd', loads) \<Rightarrow>
          (case imports_loop env m p td ys cd' of (r, loads') \<Rightarrow> (r, loads @ loads')))"
  by (induction xs arbitrary: cd) (auto split: sum.splits prod.splits)

lemma imports_loop_length:
  "imports_loop env m p td ds cd = (r, loads) \<Longrightarrow> length loads \<le> length ds"
  by (induction ds arbitrary: cd loads r) (fastforce split: sum.splits prod.splits)+

lemma imports_loop_length_ok:
  "imports_loop env m p td ds cd = (Inr cd', loads) \<Longrightarrow> length loads = length ds"
  by (induction ds arbitrary: cd loads) (auto split: sum.splits prod.splits)

lemma imports_loop_locations:
  "imports_loop env m p td ds cd = (r, loads) \<Longrightarrow>
   list_all2 (\<lambda>loc d. import_location env m p d = Inr loc) loads (take (length loads) ds)"
  by (induction ds arbitrary: cd loads r) (auto split: sum.splits prod.splits)

lemma dict_update_section:
  assumes "mapping_section (YMap kvs) td"
  shows "\<exists>cd'. own_merge kvs td cd = Inr cd' \<and> map_of cd' = map_of cd ++ section_of (YMap kvs) td"
proof (cases "map_of kvs (YStr td)")
  case None
  then show ?thesis by (simp add: own_merge_def section_of_def)
next
  case (Some v)
  show ?thesis
  proof (cases v)
    case (YMap defs)
    with Some show ?thesis
      by (cases "defs = []")
         (simp_all add: own_merge_def section_of_def map_of_dict_update_map dict_update_map_Nil)
  qed (use Some assms in \<open>simp_all add: own_merge_def section_of_def mapping_section_def\<close>)
qed

lemma import_merge_own:
  "YAML_LOADER env (fst loc) (snd loc) = Inr (YMap kvs) \<Longrightarrow>
   import_merge env td loc cd = own_merge kvs td cd"
  by (simp add: import_merge_def own_merge_def split: option.splits)

lemma imports_loop_fold:
  assumes "list_all2 (\<lambda>d doc. load_import env m p d = Inr (YMap doc) \<and> mapping_section (YMap doc) td)
             ds docs"
  shows "\<exists>cd' loads. imports_loop env m p td ds cd = (Inr cd', loads)
           \<and> map_of cd' = fold (\<lambda>doc acc. acc ++ section_of (YMap doc) td) docs (map_of cd)"
  using assms
proof (induction ds docs arbitrary: cd rule: list_all2_induct)
  case Nil
  show ?case by simp
next
  case (Cons d ds doc docs)
  from Cons.hyps(1) obtain loc where loc: "import_location env m p d = Inr loc"
    and ld: "YAML_LOADER env (fst loc) (snd loc) = Inr (YMap doc)"
    by (auto simp: load_import_def split: sum.splits)
  from Cons.hyps(1) obtain cd1 where cd1: "own_merge doc td cd = Inr cd1"
    and m1: "map_of cd1 = map_of cd ++ section_of (YMap doc) td"
    using dict_update_section[of doc td cd] by blast
  from Cons.IH[of cd1] obtain cd' loads where
    l: "imports_loop env m p td ds cd1 = (Inr cd', loads)"
    and m: "map_of cd' = fold (\<lambda>doc acc. acc ++ section_of (YMap doc) td) docs (map_of cd1)"
    by blast
  from loc ld cd1 l m m1 show ?case
    by (simp add: import_merge_own)
qed

lemma fold_add_snoc:
  "fold (\<lambda>doc acc. acc ++ f doc) (docs @ [doc]) m0 = fold (\<lambda>doc acc. acc ++ f doc) docs m0 ++ f doc"
  by simp

lemma fold_add_last:
  "i < length docs \<Longrightarrow> f (docs ! i) n = Some v \<Longrightarrow>
   (\<forall>j. i < j \<and> j < length docs \<longrightarrow> f (docs ! j) n = None) \<Longrightarrow>
   fold (\<lambda>doc acc. acc ++ f doc) docs m0 n = Some v"
proof (induction docs rule: rev_induct)
  case Nil
  then show ?case by simp
next
  case (snoc doc docs)
  show ?case
  proof (cases "i = length docs")
    case True
    with snoc.prems show ?thesis by (simp add: map_add_def)
  next
    case False
    with snoc.prems have i: "i < length docs" by simp
    from snoc.prems i have none: "f doc n = None"
      by (metis length_append_singleton lessI nth_append_length)
    have "fold (\<lambda>doc acc. acc ++ f doc) docs m0 n = Some v"
    proof (rule snoc.IH[OF i])
      from snoc.prems i show "f (docs ! i) n = Some v" by (simp add: nth_append)
      show "\<forall>j. i < j \<and> j < length docs \<longrightarrow> f (docs ! j) n = None"
      proof (intro allI impI)
        fix j assume j: "i < j \<and> j < length docs"
        then have "f ((docs @ [doc]) ! j) n = None" using snoc.prems(3) by simp
        with j show "f (docs ! j) n = None" by (simp add: nth_append)
      qed
    qed
    with none show ?thesis by (simp add: map_add_def)
  qed
qed

lemma fold_add_none:
  "(\<forall>doc \<in> set docs. f doc n = None) \<Longrightarrow> fold (\<lambda>doc acc. acc ++ f doc) docs m0 n = m0 n"
  by (induction docs rule: rev_induct) (simp_all add: map_add_def)

section \<open>The sample environment, evaluated\<close>

lemma demo_dirname_root: "demo_dirname (demo_abspath ''/proj/root.yaml'') = ''/proj''"
  by (simp add: demo_dirname_def demo_abspath_def demo_isabs_def rstrip_def)

lemma demo_isfile:
  "os_path_isfile demo_env p = (p \<in> set [''/proj/root.yaml'', ''/proj/A.yaml'', ''/proj/B.yaml'',
                                        ''C.yaml'', ''/proj/unknown.yaml'',
                                        ''/proj/unversioned.yaml'', ''/proj/undescribed.yaml'',
                                        ''/proj/datatypes.yaml''])"
  by (simp add: demo_env_def)

lemma demo_env_sel:
  "YAML_LOADER demo_env = demo_loader" "os_path_abspath demo_env = demo_abspath"
  "os_path_dirname demo_env = demo_dirname" "os_path_join demo_env = demo_join"
  "os_path_isabs demo_env = demo_isabs" "validate_url demo_env = demo_validate_url"
  "join_url demo_env = demo_join_url" "isspace demo_env = demo_isspace"
  by (simp_all add: demo_env_def)

lemma demo_local_A:
  "import_location demo_env True ''/proj/root.yaml'' (YStr ''A.yaml'') = Inr (''/proj/A.yaml'', True)"
  by (simp add: import_location_def demo_isfile demo_env_sel demo_dirname_root demo_join_def)

lemma demo_local_B:
  "import_location demo_env True ''/proj/root.yaml'' (YStr ''B.yaml'') = Inr (''/proj/B.yaml'', True)"
  by (simp add: import_location_def demo_isfile demo_env_sel demo_dirname_root demo_join_def)

lemma demo_load_A: "demo_loader ''/proj/A.yaml'' True = Inr demo_doc_A"
  by (simp add: demo_loader_def demo_files_def)

lemma demo_load_B: "demo_loader ''/proj/B.yaml'' True = Inr demo_doc_B"
  by (simp add: demo_loader_def demo_files_def)

lemma demo_root_self:
  "tpl (demo_self ''/proj/root.yaml'' True demo_root) = YMap [demo_version,
      (YStr ''description'', YStr ''Demo template.  ''),
      (YStr ''imports'', YList [YStr ''A.yaml'', YStr ''B.yaml'']),
      (YStr ''node_types'', YMap [(YStr ''Y'', demo_def ''root'')]),
      (YStr ''topology_template'', YMap [])]"
  "path (demo_self ''/proj/root.yaml'' True demo_root) = ''/proj/root.yaml''"
  "parsed_params (demo_self ''/proj/root.yaml'' True demo_root) = ''params''"
  by (simp_all add: demo_self_def demo_root_def)

lemma demo_loop_types:
  "imports_loop demo_env True ''/proj/root.yaml'' NODE_TYPES [YStr ''A.yaml'', YStr ''B.yaml''] []
     = (Inr [(YStr ''X'', demo_def ''B''), (YStr ''P'', demo_def ''A''), (YStr ''Y'', demo_def ''B'')],
        [(''/proj/A.yaml'', True), (''/proj/B.yaml'', True)])"
  "imports_loop demo_env True ''/proj/root.yaml'' CAPABILITY_TYPES
       [YStr ''A.yaml'', YStr ''B.yaml''] []
     = (Inr [(YStr ''Y'', demo_def ''B cap'')],
        [(''/proj/A.yaml'', True), (''/proj/B.yaml'', True)])"
  "imports_loop demo_env True ''/proj/root.yaml'' RELATIONSHIP_TYPES
       [YStr ''A.yaml'', YStr ''B.yaml''] []
     = (Inr [], [(''/proj/A.yaml'', True), (''/proj/B.yaml'', True)])"
  "imports_loop demo_env True ''/proj/root.yaml'' DATATYPE_DEFINITIONS
       [YStr ''A.yaml'', YStr ''B.yaml''] []
     = (Inr [], [(''/proj/A.yaml'', True), (''/proj/B.yaml'', True)])"
  by (simp_all add: demo_local_A demo_local_B import_merge_def demo_env_sel demo_load_A
        demo_load_B demo_doc_A_def demo_doc_B_def key_names dict_update_map_def)

lemma demo_root_imports:
  "demo_root = YMap [demo_version,
      (YStr ''description'', YStr ''Demo template.  ''),
      (YStr ''imports'', YList [YStr ''A.yaml'', YStr ''B.yaml'']),
      (YStr ''node_types'', YMap [(YStr ''Y'', demo_def ''root'')]),
      (YStr ''topology_template'', YMap [])]"
  "map_of [demo_version,
      (YStr ''description'', YStr ''Demo template.  ''),
      (YStr ''imports'', YList [YStr ''A.yaml'', YStr ''B.yaml'']),
      (YStr ''node_types'', YMap [(YStr ''Y'', demo_def ''root'')]),
      (YStr ''topology_template'', YMap [])] (YStr IMPORTS)
     = Some (YList [YStr ''A.yaml'', YStr ''B.yaml''])"
  by (simp_all add: demo_root_def IMPORTS_def demo_version_def)

lemma demo_types:
  "get_custom_types demo_env (demo_self ''/proj/root.yaml'' True demo_root) NODE_TYPES
     = (Inr [(YStr ''X'', demo_def ''B''), (YStr ''P'', demo_def ''A''),
             (YStr ''Y'', demo_def ''root'')],
        [(''/proj/A.yaml'', True), (''/proj/B.yaml'', True)])"
  "get_custom_types demo_env (demo_self ''/proj/root.yaml'' True demo_root) CAPABILITY_TYPES
     = (Inr [(YStr ''Y'', demo_def ''B cap'')],
        [(''/proj/A.yaml'', True), (''/proj/B.yaml'', True)])"
  "get_custom_types demo_env (demo_self ''/proj/root.yaml'' True demo_root) RELATIONSHIP_TYPES
     = (Inr [], [(''/proj/A.yaml'', True), (''/proj/B.yaml'', True)])"
  "get_custom_types demo_env (demo_self ''/proj/root.yaml'' True demo_root) DATATYPE_DEFINITIONS
     = (Inr [], [(''/proj/A.yaml'', True), (''/proj/B.yaml'', True)])"
proof -
  let ?self = "demo_self ''/proj/root.yaml'' True demo_root"
  note t = demo_root_self(1)
  note i = demo_root_imports(2)
  have f: "os_path_isfile demo_env ''/proj/root.yaml''" by (simp add: demo_isfile)
  show "get_custom_types demo_env ?self NODE_TYPES
     = (Inr [(YStr ''X'', demo_def ''B''), (YStr ''P'', demo_def ''A''),
             (YStr ''Y'', demo_def ''root'')],
        [(''/proj/A.yaml'', True), (''/proj/B.yaml'', True)])"
    using get_custom_types_list[OF t i, of demo_env NODE_TYPES]
    by (simp only: demo_root_self(2) f demo_loop_types)
       (simp add: own_merge_def key_names demo_version_def dict_update_map_def)
  show "get_custom_types demo_env ?self CAPABILITY_TYPES
     = (Inr [(YStr ''Y'', demo_def ''B cap'')],
        [(''/proj/A.yaml'', True), (''/proj/B.yaml'', True)])"
    using get_custom_types_list[OF t i, of demo_env CAPABILITY_TYPES]
    by (simp only: demo_root_self(2) f demo_loop_types)
       (simp add: own_merge_def key_names demo_version_def dict_update_map_def)
  show "get_custom_types demo_env ?self RELATIONSHIP_TYPES
     = (Inr [], [(''/proj/A.yaml'', True), (''/proj/B.yaml'', True)])"
    using get_custom_types_list[OF t i, of demo_env RELATIONSHIP_TYPES]
    by (simp only: demo_root_self(2) f demo_loop_types)
       (simp add: own_merge_def key_names demo_version_def dict_update_map_def)
  show "get_custom_types demo_env ?self DATATYPE_DEFINITIONS
     = (Inr [], [(''/proj/A.yaml'', True), (''/proj/B.yaml'', True)])"
    using get_custom_types_list[OF t i, of demo_env DATATYPE_DEFINITIONS]
    by (simp only: demo_root_self(2) f demo_loop_types)
       (simp add: own_merge_def key_names demo_version_def dict_update_map_def)
qed

section \<open>The registry of one kind of types\<close>

lemma own_merge_empty:
  assumes "mapping_section (YMap root) td"
  shows "\<exists>reg. own_merge root td [] = Inr reg
           \<and> map_of reg = section_of (YMap root) td
           \<and> (map_of root (YStr td) = None \<longrightarrow> reg = [])
           \<and> (\<forall>defs. map_of root (YStr td) = Some (YMap defs) \<and> distinct (map fst defs)
                 \<longrightarrow> reg = defs)"
proof (cases "map_of root (YStr td)")
  case None
  then show ?thesis by (simp add: own_merge_def section_of_def)
next
  case (Some v)
  show ?thesis
  proof (cases v)
    case (YMap defs)
    with Some show ?thesis
      by (cases "defs = []")
         (auto simp: own_merge_def section_of_def map_of_dict_update_map dict_update_map_empty)
  qed (use Some assms in \<open>simp_all add: own_merge_def section_of_def mapping_section_def\<close>)
qed

text \<open>
  C10. When the template is a mapping whose \<open>imports\<close> key is absent or has an empty list,
  and its section for the requested kind is a mapping or is absent or empty, then
  \<open>_get_custom_types\<close> calls the loader not once and returns the template's own definitions
  of that kind: the same finite map, the empty dict when the section is absent, and the very
  list of entries when its keys are distinct. The method reads the template and builds a
  fresh dict: the only \<open>update\<close> calls of the source are on \<open>custom_defs\<close>, and the model has
  no output through which the template could change.
\<close>

theorem no_imports_own_types:
  assumes "tpl self = YMap root"
    and "map_of root (YStr IMPORTS) = None \<or> map_of root (YStr IMPORTS) = Some (YList [])"
    and "mapping_section (YMap root) td"
  shows "\<exists>reg. get_custom_types env self td = (Inr reg, [])
           \<and> map_of reg = section_of (YMap root) td
           \<and> (map_of root (YStr td) = None \<longrightarrow> reg = [])
           \<and> (\<forall>defs. map_of root (YStr td) = Some (YMap defs) \<and> distinct (map fst defs)
                 \<longrightarrow> reg = defs)"
  using own_merge_empty[OF assms(3)] get_custom_types_no_imports[OF assms(1,2), of env td]
  by simp

theorem no_imports_own_types_witness:
  "get_custom_types demo_env (demo_self ''/proj/plain.yaml'' True demo_root_plain) NODE_TYPES
     = (Inr [(YStr ''Y'', demo_def ''root'')], [])
   \<and> get_custom_types demo_env (demo_self ''/proj/plain.yaml'' True demo_root_plain)
       CAPABILITY_TYPES = (Inr [], [])
   \<and> get_custom_types demo_env (demo_self ''/proj/undescribed.yaml'' True demo_root_undescribed)
       NODE_TYPES = (Inr [], [])"
proof -
  let ?root = "[demo_version, (YStr ''imports'', YList []),
                (YStr ''node_types'', YMap [(YStr ''Y'', demo_def ''root'')])]"
  let ?self = "demo_self ''/proj/plain.yaml'' True demo_root_plain"
  have t: "tpl ?self = YMap ?root"
    by (simp add: demo_self_def demo_root_plain_def)
  have i: "map_of ?root (YStr IMPORTS) = None \<or> map_of ?root (YStr IMPORTS) = Some (YList [])"
    by (simp add: IMPORTS_def demo_version_def)
  have m: "mapping_section (YMap ?root) NODE_TYPES"
    by (simp add: mapping_section_def NODE_TYPES_def demo_version_def)
  have s: "map_of ?root (YStr NODE_TYPES) = Some (YMap [(YStr ''Y'', demo_def ''root'')])
           \<and> distinct (map fst [(YStr ''Y'', demo_def ''root'')])"
    by (simp add: NODE_TYPES_def demo_version_def)
  have r1: "get_custom_types demo_env ?self NODE_TYPES
              = (Inr [(YStr ''Y'', demo_def ''root'')], [])"
    using no_imports_own_types[OF t i m, of demo_env] s by auto
  have m2: "mapping_section (YMap ?root) CAPABILITY_TYPES"
    by (simp add: mapping_section_def CAPABILITY_TYPES_def demo_version_def)
  have s2: "map_of ?root (YStr CAPABILITY_TYPES) = None"
    by (simp add: CAPABILITY_TYPES_def demo_version_def)
  have r2: "get_custom_types demo_env ?self CAPABILITY_TYPES = (Inr [], [])"
    using no_imports_own_types[OF t i m2, of demo_env] s2 by auto
  let ?root3 = "[demo_version, (YStr ''node_types'', YMap [])]"
  let ?self3 = "demo_self ''/proj/undescribed.yaml'' True demo_root_undescribed"
  have t3: "tpl ?self3 = YMap ?root3"
    by (simp add: demo_self_def demo_root_undescribed_def)
  have i3: "map_of ?root3 (YStr IMPORTS) = None \<or> map_of ?root3 (YStr IMPORTS) = Some (YList [])"
    by (simp add: IMPORTS_def demo_version_def)
  have m3: "mapping_section (YMap ?root3) NODE_TYPES"
    by (simp add: mapping_section_def NODE_TYPES_def demo_version_def)
  have s3: "map_of ?root3 (YStr NODE_TYPES) = Some (YMap []) \<and> distinct (map fst ([]::dict))"
    by (simp add: NODE_TYPES_def demo_version_def)
  have r3: "get_custom_types demo_env ?self3 NODE_TYPES = (Inr [], [])"
    using no_imports_own_types[OF t3 i3 m3, of demo_env] s3 by auto
  from r1 r2 r3 show ?thesis by simp
qed

text \<open>
  C1. The template is a mapping with a list of imports (or without the key: no imports), each
  import resolves and loads to a mapping, and the sections of the requested kind are
  mappings (or absent or empty). Then \<open>_get_custom_types\<close> loads every import once and
  returns a registry that is the fold of the imported sections in the
  order of the declaration, a later one written over an earlier one, with the template's own
  section written over the result. So a name that the template defines itself has the
  template's definition; a name that only imports define has the definition of the last
  import that defines it; a name that nobody defines is not in the registry.
\<close>

theorem merged_registry:
  assumes "tpl self = YMap root"
    and "map_of root (YStr IMPORTS) = Some (YList ds)
         \<or> map_of root (YStr IMPORTS) = None \<and> ds = []"
    and "list_all2 (\<lambda>d doc. load_import env (os_path_isfile env (path self)) (path self) d
                               = Inr (YMap doc)
                             \<and> mapping_section (YMap doc) td) ds docs"
    and "mapping_section (YMap root) td"
  shows "\<exists>reg loads. get_custom_types env self td = (Inr reg, loads)
      \<and> length loads = length ds
      \<and> map_of reg = fold (\<lambda>doc acc. acc ++ section_of (YMap doc) td) docs Map.empty
                       ++ section_of (YMap root) td
      \<and> (\<forall>n v. section_of (YMap root) td n = Some v \<longrightarrow> map_of reg n = Some v)
      \<and> (\<forall>n v i. section_of (YMap root) td n = None \<and> i < length docs
               \<and> section_of (YMap (docs ! i)) td n = Some v
               \<and> (\<forall>j. i < j \<and> j < length docs \<longrightarrow> section_of (YMap (docs ! j)) td n = None)
             \<longrightarrow> map_of reg n = Some v)
      \<and> (\<forall>n. section_of (YMap root) td n = None
               \<and> (\<forall>doc \<in> set docs. section_of (YMap doc) td n = None)
             \<longrightarrow> map_of reg n = None)"
proof -
  let ?f = "\<lambda>doc. section_of (YMap doc) td"
  from imports_loop_fold[OF assms(3), of "[]"] obtain cd loads where
    l: "imports_loop env (os_path_isfile env (path self)) (path self) td ds [] = (Inr cd, loads)"
    and m: "map_of cd = fold (\<lambda>doc acc. acc ++ ?f doc) docs Map.empty"
    by auto
  from dict_update_section[OF assms(4), of cd] obtain reg where
    o: "own_merge root td cd = Inr reg" and r: "map_of reg = map_of cd ++ ?f root"
    by blast
  have n: "length loads = length ds"
    by (rule imports_loop_length_ok[OF l])
  from assms(2) have g: "get_custom_types env self td = (Inr reg, loads)"
  proof
    assume "map_of root (YStr IMPORTS) = Some (YList ds)"
    from get_custom_types_list[OF assms(1) this, of env td] l o show ?thesis by simp
  next
    assume a: "map_of root (YStr IMPORTS) = None \<and> ds = []"
    with l have "cd = []" "loads = []" by simp_all
    with get_custom_types_no_imports[OF assms(1), of env td] a o show ?thesis by simp
  qed
  have e: "map_of reg = fold (\<lambda>doc acc. acc ++ ?f doc) docs Map.empty ++ ?f root"
    using r m by simp
  have p1: "\<forall>n v. ?f root n = Some v \<longrightarrow> map_of reg n = Some v"
    by (simp add: e map_add_def)
  have p2: "\<forall>n v i. ?f root n = None \<and> i < length docs \<and> ?f (docs ! i) n = Some v
               \<and> (\<forall>j. i < j \<and> j < length docs \<longrightarrow> ?f (docs ! j) n = None)
             \<longrightarrow> map_of reg n = Some v"
  proof (intro allI impI)
    fix n v i
    assume a: "?f root n = None \<and> i < length docs \<and> ?f (docs ! i) n = Some v
               \<and> (\<forall>j. i < j \<and> j < length docs \<longrightarrow> ?f (docs ! j) n = None)"
    then have "fold (\<lambda>doc acc. acc ++ ?f doc) docs Map.empty n = Some v"
      by (intro fold_add_last[where f = ?f and i = i]) auto
    with a show "map_of reg n = Some v" by (simp add: e map_add_def)
  qed
  have p3: "\<forall>n. ?f root n = None \<and> (\<forall>doc \<in> set docs. ?f doc n = None) \<longrightarrow> map_of reg n = None"
  proof (intro allI impI)
    fix n
    assume a: "?f root n = None \<and> (\<forall>doc \<in> set docs. ?f doc n = None)"
    then have "fold (\<lambda>doc acc. acc ++ ?f doc) docs Map.empty n = Map.empty n"
      by (intro fold_add_none[where f = ?f]) auto
    with a show "map_of reg n = None" by (simp add: e map_add_def)
  qed
  from g n e p1 p2 p3 show ?thesis by blast
qed

theorem merged_registry_witness:
  "\<exists>reg loads.
     get_custom_types demo_env (demo_self ''/proj/root.yaml'' True demo_root) NODE_TYPES
       = (Inr reg, loads)
     \<and> map_of reg (YStr ''X'') = Some (demo_def ''B'')
     \<and> map_of reg (YStr ''P'') = Some (demo_def ''A'')
     \<and> map_of reg (YStr ''Y'') = Some (demo_def ''root'')
     \<and> map_of reg (YStr ''Art'') = None"
proof -
  let ?root = "[demo_version,
      (YStr ''description'', YStr ''Demo template.  ''),
      (YStr ''imports'', YList [YStr ''A.yaml'', YStr ''B.yaml'']),
      (YStr ''node_types'', YMap [(YStr ''Y'', demo_def ''root'')]),
      (YStr ''topology_template'', YMap [])]"
  let ?A = "[(YStr ''node_types'', YMap [(YStr ''X'', demo_def ''A''), (YStr ''P'', demo_def ''A'')]),
      (YStr ''artifact_types'', YMap [(YStr ''Art'', demo_def ''A'')])]"
  let ?B = "[(YStr ''node_types'', YMap [(YStr ''X'', demo_def ''B''), (YStr ''Y'', demo_def ''B'')]),
      (YStr ''capability_types'', YMap [(YStr ''Y'', demo_def ''B cap'')])]"
  let ?self = "demo_self ''/proj/root.yaml'' True demo_root"
  have t: "tpl ?self = YMap ?root"
    by (simp add: demo_self_def demo_root_def)
  have i: "map_of ?root (YStr IMPORTS) = Some (YList [YStr ''A.yaml'', YStr ''B.yaml''])"
    by (simp add: IMPORTS_def demo_version_def)
  have p: "path ?self = ''/proj/root.yaml''" "os_path_isfile demo_env ''/proj/root.yaml''"
    by (simp_all add: demo_self_def demo_isfile)
  have l: "list_all2 (\<lambda>d doc. load_import demo_env (os_path_isfile demo_env (path ?self))
                                 (path ?self) d = Inr (YMap doc)
                             \<and> mapping_section (YMap doc) NODE_TYPES)
             [YStr ''A.yaml'', YStr ''B.yaml''] [?A, ?B]"
    by (simp add: p load_import_def demo_local_A demo_local_B demo_env_sel demo_load_A
          demo_load_B demo_doc_A_def demo_doc_B_def mapping_section_def NODE_TYPES_def)
  have m: "mapping_section (YMap ?root) NODE_TYPES"
    by (simp add: mapping_section_def NODE_TYPES_def demo_version_def)
  from merged_registry[OF t disjI1[OF i] l m] obtain reg loads where
    g: "get_custom_types demo_env ?self NODE_TYPES = (Inr reg, loads)"
    and e: "map_of reg = fold (\<lambda>doc acc. acc ++ section_of (YMap doc) NODE_TYPES) [?A, ?B] Map.empty
                       ++ section_of (YMap ?root) NODE_TYPES"
    by blast
  have "map_of reg (YStr ''X'') = Some (demo_def ''B'')"
       "map_of reg (YStr ''P'') = Some (demo_def ''A'')"
       "map_of reg (YStr ''Y'') = Some (demo_def ''root'')"
       "map_of reg (YStr ''Art'') = None"
    by (simp_all add: e section_of_def NODE_TYPES_def demo_version_def map_add_def)
  with g show ?thesis by blast
qed

section \<open>The aggregate registry\<close>

lemma map_of_update_nonempty:
  "map_of (if cd \<noteq> [] then dict_update_map acc cd else acc) = map_of acc ++ map_of cd"
  by (simp add: map_of_dict_update_map)

text \<open>
  C2. When the four calls of \<open>_get_custom_types\<close> succeed, \<open>_get_all_custom_defs\<close> returns the
  union of the registries of the node types, the capability types, the relationship types
  and the datatype definitions, merged in that order; the artifact types take no part. For a
  name that two kinds define the later kind in that order wins: datatype definitions over
  relationship types over capability types over node types. The loader calls are those of
  the four merges, one after the other.
\<close>

theorem aggregate_registry:
  assumes "get_custom_types env self NODE_TYPES = (Inr node, l1)"
    and "get_custom_types env self CAPABILITY_TYPES = (Inr cap, l2)"
    and "get_custom_types env self RELATIONSHIP_TYPES = (Inr rel, l3)"
    and "get_custom_types env self DATATYPE_DEFINITIONS = (Inr dat, l4)"
  shows "\<exists>agg. get_all_custom_defs env self = (Inr agg, l1 @ l2 @ l3 @ l4)
      \<and> map_of agg = map_of node ++ map_of cap ++ map_of rel ++ map_of dat
      \<and> dom (map_of agg) = dom (map_of node) \<union> dom (map_of cap) \<union> dom (map_of rel)
                              \<union> dom (map_of dat)
      \<and> (\<forall>n. map_of agg n =
               (case map_of dat n of Some v \<Rightarrow> Some v | None \<Rightarrow>
               (case map_of rel n of Some v \<Rightarrow> Some v | None \<Rightarrow>
               (case map_of cap n of Some v \<Rightarrow> Some v | None \<Rightarrow> map_of node n))))"
proof -
  let ?c1 = "if node \<noteq> [] then dict_update_map [] node else []"
  let ?c2 = "if cap \<noteq> [] then dict_update_map ?c1 cap else ?c1"
  let ?c3 = "if rel \<noteq> [] then dict_update_map ?c2 rel else ?c2"
  let ?c4 = "if dat \<noteq> [] then dict_update_map ?c3 dat else ?c3"
  have g: "get_all_custom_defs env self = (Inr ?c4, l1 @ l2 @ l3 @ l4)"
    unfolding get_all_custom_defs_def all_custom_defs_loop.simps assms by simp
  have "map_of ?c1 = map_of node"
    using map_of_update_nonempty[of node "[]"] by simp
  then have "map_of ?c2 = map_of node ++ map_of cap"
    using map_of_update_nonempty[of cap ?c1] by simp
  then have "map_of ?c3 = map_of node ++ map_of cap ++ map_of rel"
    using map_of_update_nonempty[of rel ?c2] by simp
  then have e: "map_of ?c4 = map_of node ++ map_of cap ++ map_of rel ++ map_of dat"
    using map_of_update_nonempty[of dat ?c3] by simp
  have d: "dom (map_of ?c4) = dom (map_of node) \<union> dom (map_of cap) \<union> dom (map_of rel)
                              \<union> dom (map_of dat)"
    unfolding e by auto
  have c: "\<forall>n. map_of ?c4 n =
               (case map_of dat n of Some v \<Rightarrow> Some v | None \<Rightarrow>
               (case map_of rel n of Some v \<Rightarrow> Some v | None \<Rightarrow>
               (case map_of cap n of Some v \<Rightarrow> Some v | None \<Rightarrow> map_of node n)))"
    unfolding e by (simp add: map_add_def split: option.splits)
  from g e d c show ?thesis by blast
qed

lemma demo_datatypes_self:
  "tpl (demo_self ''/proj/datatypes.yaml'' True demo_root_datatypes) = YMap [demo_version,
      (YStr ''node_types'', YMap [(YStr ''T'', demo_def ''node''), (YStr ''N'', demo_def ''node'')]),
      (YStr ''artifact_types'', YMap [(YStr ''Art'', demo_def ''artifact'')]),
      (YStr ''datatype_definitions'', YMap [(YStr ''T'', demo_def ''datatype'')])]"
  "map_of [demo_version,
      (YStr ''node_types'', YMap [(YStr ''T'', demo_def ''node''), (YStr ''N'', demo_def ''node'')]),
      (YStr ''artifact_types'', YMap [(YStr ''Art'', demo_def ''artifact'')]),
      (YStr ''datatype_definitions'', YMap [(YStr ''T'', demo_def ''datatype'')])] (YStr IMPORTS) = None \<or> map_of [demo_version,
      (YStr ''node_types'', YMap [(YStr ''T'', demo_def ''node''), (YStr ''N'', demo_def ''node'')]),
      (YStr ''artifact_types'', YMap [(YStr ''Art'', demo_def ''artifact'')]),
      (YStr ''datatype_definitions'', YMap [(YStr ''T'', demo_def ''datatype'')])] (YStr IMPORTS) = Some (YList [])"
  by (simp_all add: demo_self_def demo_root_datatypes_def IMPORTS_def demo_version_def)

lemma demo_datatypes_types:
  "get_custom_types demo_env (demo_self ''/proj/datatypes.yaml'' True demo_root_datatypes)
     NODE_TYPES = (Inr [(YStr ''T'', demo_def ''node''), (YStr ''N'', demo_def ''node'')], [])"
  "get_custom_types demo_env (demo_self ''/proj/datatypes.yaml'' True demo_root_datatypes)
     CAPABILITY_TYPES = (Inr [], [])"
  "get_custom_types demo_env (demo_self ''/proj/datatypes.yaml'' True demo_root_datatypes)
     RELATIONSHIP_TYPES = (Inr [], [])"
  "get_custom_types demo_env (demo_self ''/proj/datatypes.yaml'' True demo_root_datatypes)
     DATATYPE_DEFINITIONS = (Inr [(YStr ''T'', demo_def ''datatype'')], [])"
  unfolding get_custom_types_no_imports[OF demo_datatypes_self]
  by (simp_all add: own_merge_def key_names demo_version_def dict_update_map_def)

theorem aggregate_registry_witness:
  "(\<exists>agg. get_all_custom_defs demo_env (demo_self ''/proj/root.yaml'' True demo_root)
            = (Inr agg, [(''/proj/A.yaml'', True), (''/proj/B.yaml'', True),
                         (''/proj/A.yaml'', True), (''/proj/B.yaml'', True),
                         (''/proj/A.yaml'', True), (''/proj/B.yaml'', True),
                         (''/proj/A.yaml'', True), (''/proj/B.yaml'', True)])
     \<and> map_of agg (YStr ''X'') = Some (demo_def ''B'')
     \<and> map_of agg (YStr ''Y'') = Some (demo_def ''B cap'')
     \<and> map_of agg (YStr ''Art'') = None)
   \<and> (\<exists>agg. get_all_custom_defs demo_env
               (demo_self ''/proj/datatypes.yaml'' True demo_root_datatypes) = (Inr agg, [])
     \<and> map_of agg (YStr ''T'') = Some (demo_def ''datatype'')
     \<and> map_of agg (YStr ''N'') = Some (demo_def ''node'')
     \<and> map_of agg (YStr ''Art'') = None)"
proof -
  from aggregate_registry[OF demo_datatypes_types] obtain agg2 where
    g2: "get_all_custom_defs demo_env
           (demo_self ''/proj/datatypes.yaml'' True demo_root_datatypes)
          = (Inr agg2, [] @ [] @ [] @ [])"
    and e2: "map_of agg2 = map_of [(YStr ''T'', demo_def ''node''), (YStr ''N'', demo_def ''node'')]
                          ++ map_of [] ++ map_of []
                          ++ map_of [(YStr ''T'', demo_def ''datatype'')]"
    by blast
  have "map_of agg2 (YStr ''T'') = Some (demo_def ''datatype'')"
       "map_of agg2 (YStr ''N'') = Some (demo_def ''node'')"
       "map_of agg2 (YStr ''Art'') = None"
    by (simp_all add: e2 map_add_def)
  with g2 have second: "\<exists>agg. get_all_custom_defs demo_env
               (demo_self ''/proj/datatypes.yaml'' True demo_root_datatypes) = (Inr agg, [])
     \<and> map_of agg (YStr ''T'') = Some (demo_def ''datatype'')
     \<and> map_of agg (YStr ''N'') = Some (demo_def ''node'')
     \<and> map_of agg (YStr ''Art'') = None"
    by simp
  from aggregate_registry[OF demo_types] obtain agg where
    g: "get_all_custom_defs demo_env (demo_self ''/proj/root.yaml'' True demo_root)
          = (Inr agg, [(''/proj/A.yaml'', True), (''/proj/B.yaml'', True)]
               @ [(''/proj/A.yaml'', True), (''/proj/B.yaml'', True)]
               @ [(''/proj/A.yaml'', True), (''/proj/B.yaml'', True)]
               @ [(''/proj/A.yaml'', True), (''/proj/B.yaml'', True)])"
    and e: "map_of agg = map_of [(YStr ''X'', demo_def ''B''), (YStr ''P'', demo_def ''A''),
                                 (YStr ''Y'', demo_def ''root'')]
                         ++ map_of [(YStr ''Y'', demo_def ''B cap'')] ++ map_of [] ++ map_of []"
    by blast
  have "map_of agg (YStr ''X'') = Some (demo_def ''B'')"
       "map_of agg (YStr ''Y'') = Some (demo_def ''B cap'')"
       "map_of agg (YStr ''Art'') = None"
    by (simp_all add: e map_add_def)
  with g have first: "\<exists>agg. get_all_custom_defs demo_env
               (demo_self ''/proj/root.yaml'' True demo_root)
            = (Inr agg, [(''/proj/A.yaml'', True), (''/proj/B.yaml'', True),
                         (''/proj/A.yaml'', True), (''/proj/B.yaml'', True),
                         (''/proj/A.yaml'', True), (''/proj/B.yaml'', True),
                         (''/proj/A.yaml'', True), (''/proj/B.yaml'', True)])
     \<and> map_of agg (YStr ''X'') = Some (demo_def ''B'')
     \<and> map_of agg (YStr ''Y'') = Some (demo_def ''B cap'')
     \<and> map_of agg (YStr ''Art'') = None"
    by simp
  from first second show ?thesis by (rule conjI)
qed

section \<open>Where an import is loaded from\<close>

lemma import_location_local:
  "import_location env True p (YStr d) = Inr (local_location env p d)"
  by (simp add: import_location_def local_location_def Let_def)

lemma locations_local:
  "list_all2 (\<lambda>loc e. import_location env True p e = Inr loc) loads (map YStr xs) \<Longrightarrow>
   loads = map (local_location env p) xs"
  by (induction xs arbitrary: loads) (auto simp: list_all2_Cons2 import_location_local)

lemma imports_loop_local:
  assumes "imports_loop env True p td (map YStr ds) cd = (r, loads)"
  shows "loads = map (local_location env p) (take (length loads) ds)"
proof -
  from imports_loop_locations[OF assms]
  have "list_all2 (\<lambda>loc e. import_location env True p e = Inr loc) loads
          (map YStr (take (length loads) ds))"
    by (simp add: take_map)
  then show ?thesis by (rule locations_local)
qed

lemma get_custom_types_loads:
  assumes "tpl self = YMap root" and "map_of root (YStr IMPORTS) = Some (YList es)"
  shows "snd (get_custom_types env self td)
           = snd (imports_loop env (os_path_isfile env (path self)) (path self) td es [])"
    and "fst (get_custom_types env self td) = Inr reg \<Longrightarrow>
           \<exists>cd. fst (imports_loop env (os_path_isfile env (path self)) (path self) td es [])
                  = Inr cd"
  using get_custom_types_list[OF assms, of env td]
  by (auto split: prod.splits sum.splits)

text \<open>
  C4. The template's own location is a local file, and the imports are a list of strings.
  Each import is then resolved by the three steps: the import as written and as a file if
  that is a file; else the import joined to the directory of the template's own location,
  as a file, if that is a file; else the import as written, not as a file. The loader is
  called on exactly these locations, in order, up to the first failure, and on all of them
  when the merge succeeds. The URL check, the absolute-path check and the URL join play no
  part in it.
\<close>

theorem local_root_resolution:
  assumes "tpl self = YMap root"
    and "map_of root (YStr IMPORTS) = Some (YList (map YStr ds))"
    and "os_path_isfile env (path self)"
  shows "(\<forall>d. import_location env (os_path_isfile env (path self)) (path self) (YStr d)
              = Inr (if os_path_isfile env d then (d, True)
                     else if os_path_isfile env
                               (os_path_join env
                                  (os_path_dirname env (os_path_abspath env (path self))) d)
                     then (os_path_join env
                             (os_path_dirname env (os_path_abspath env (path self))) d, True)
                     else (d, False)))
       \<and> prefix (snd (get_custom_types env self td)) (map (local_location env (path self)) ds)
       \<and> ((\<exists>reg. fst (get_custom_types env self td) = Inr reg) \<longrightarrow>
            snd (get_custom_types env self td) = map (local_location env (path self)) ds)
       \<and> (\<forall>v a j e. import_location (env\<lparr>validate_url := v, os_path_isabs := a, join_url := j\<rparr>)
                      True (path self) e = import_location env True (path self) e)"
proof -
  let ?p = "path self"
  let ?loop = "imports_loop env True ?p td (map YStr ds) []"
  have s: "snd (get_custom_types env self td) = snd ?loop"
    using get_custom_types_loads(1)[OF assms(1,2), of env td] assms(3) by simp
  have l: "snd ?loop = map (local_location env ?p) (take (length (snd ?loop)) ds)"
    by (rule imports_loop_local[of env ?p td ds "[]" "fst ?loop"]) simp
  have a: "\<forall>d. import_location env (os_path_isfile env ?p) ?p (YStr d)
              = Inr (if os_path_isfile env d then (d, True)
                     else if os_path_isfile env
                               (os_path_join env (os_path_dirname env (os_path_abspath env ?p)) d)
                     then (os_path_join env (os_path_dirname env (os_path_abspath env ?p)) d, True)
                     else (d, False))"
    using assms(3) by (simp add: import_location_def Let_def)
  have b: "prefix (snd (get_custom_types env self td)) (map (local_location env ?p) ds)"
    unfolding s by (subst l) (simp add: take_map[symmetric] take_is_prefix)
  have c: "(\<exists>reg. fst (get_custom_types env self td) = Inr reg) \<longrightarrow>
            snd (get_custom_types env self td) = map (local_location env ?p) ds"
  proof
    assume "\<exists>reg. fst (get_custom_types env self td) = Inr reg"
    then obtain reg where "fst (get_custom_types env self td) = Inr reg" ..
    from get_custom_types_loads(2)[OF assms(1,2) this] assms(3)
    obtain cd where "fst ?loop = Inr cd" by auto
    then have "?loop = (Inr cd, snd ?loop)" by (metis prod.collapse)
    from imports_loop_length_ok[OF this] have "length (snd ?loop) = length ds" by simp
    with l s show "snd (get_custom_types env self td) = map (local_location env ?p) ds"
      by simp
  qed
  have d: "\<forall>v a j e. import_location (env\<lparr>validate_url := v, os_path_isabs := a, join_url := j\<rparr>)
                      True ?p e = import_location env True ?p e"
    by (simp add: import_location_def Let_def split: yaml.splits)
  from a b c d show ?thesis by blast
qed

lemma demo_three_self:
  "tpl (demo_self ''/proj/root.yaml'' True demo_root_three) = YMap [demo_version,
      (YStr ''imports'', YList (map YStr [''C.yaml'', ''A.yaml'', ''http://host/D.yaml'']))]"
  "path (demo_self ''/proj/root.yaml'' True demo_root_three) = ''/proj/root.yaml''"
  "map_of [demo_version,
      (YStr ''imports'', YList (map YStr [''C.yaml'', ''A.yaml'', ''http://host/D.yaml'']))]
     (YStr IMPORTS) = Some (YList (map YStr [''C.yaml'', ''A.yaml'', ''http://host/D.yaml'']))"
  by (simp_all add: demo_self_def demo_root_three_def IMPORTS_def demo_version_def)

lemma demo_three_locations:
  "local_location demo_env ''/proj/root.yaml'' ''C.yaml'' = (''C.yaml'', True)"
  "local_location demo_env ''/proj/root.yaml'' ''A.yaml'' = (''/proj/A.yaml'', True)"
  "local_location demo_env ''/proj/root.yaml'' ''http://host/D.yaml''
     = (''http://host/D.yaml'', False)"
  by (simp_all add: local_location_def demo_isfile demo_env_sel demo_dirname_root demo_join_def)

lemma demo_three_loop:
  "imports_loop demo_env True ''/proj/root.yaml'' RELATIONSHIP_TYPES
     (map YStr [''C.yaml'', ''A.yaml'', ''http://host/D.yaml'']) []
   = (Inr [(YStr ''R'', demo_def ''C'')],
      [(''C.yaml'', True), (''/proj/A.yaml'', True), (''http://host/D.yaml'', False)])"
  by (simp add: import_location_local demo_three_locations import_merge_def demo_env_sel
        demo_loader_def demo_files_def demo_doc_A_def demo_doc_C_def demo_doc_D_def
        key_names dict_update_map_def)

lemma demo_three_types:
  "get_custom_types demo_env (demo_self ''/proj/root.yaml'' True demo_root_three)
     RELATIONSHIP_TYPES
   = (Inr [(YStr ''R'', demo_def ''C'')],
      [(''C.yaml'', True), (''/proj/A.yaml'', True), (''http://host/D.yaml'', False)])"
proof -
  have f: "os_path_isfile demo_env ''/proj/root.yaml''" by (simp add: demo_isfile)
  show ?thesis
    using get_custom_types_list[OF demo_three_self(1,3), of demo_env RELATIONSHIP_TYPES]
    by (simp only: demo_three_self(2) f demo_three_loop)
       (simp add: own_merge_def key_names demo_version_def)
qed

theorem local_root_resolution_witness:
  "os_path_isfile demo_env ''/proj/root.yaml''
   \<and> os_path_isfile demo_env ''C.yaml''
   \<and> \<not> os_path_isfile demo_env ''A.yaml'' \<and> os_path_isfile demo_env ''/proj/A.yaml''
   \<and> \<not> os_path_isfile demo_env ''http://host/D.yaml''
   \<and> \<not> os_path_isfile demo_env ''/proj/http://host/D.yaml''
   \<and> snd (get_custom_types demo_env (demo_self ''/proj/root.yaml'' True demo_root_three)
            RELATIONSHIP_TYPES)
       = [(''C.yaml'', True), (''/proj/A.yaml'', True), (''http://host/D.yaml'', False)]"
proof -
  let ?self = "demo_self ''/proj/root.yaml'' True demo_root_three"
  have f: "os_path_isfile demo_env (path ?self)"
    by (simp add: demo_three_self(2) demo_isfile)
  have r: "\<exists>reg. fst (get_custom_types demo_env ?self RELATIONSHIP_TYPES) = Inr reg"
    by (simp add: demo_three_types)
  from local_root_resolution[OF demo_three_self(1,3) f, of RELATIONSHIP_TYPES] r
  have "snd (get_custom_types demo_env ?self RELATIONSHIP_TYPES)
          = map (local_location demo_env (path ?self))
              [''C.yaml'', ''A.yaml'', ''http://host/D.yaml'']"
    by blast
  then show ?thesis
    by (simp add: demo_three_self(2) demo_three_locations demo_isfile)
qed

text \<open>
  C3. The template's own location is not a local file, and an import is a string that is not
  a valid URL and is an absolute path. Its resolution raises \<open>ImportError\<close>; the merge ends
  with the exception of an earlier import if there is one, and with this \<open>ImportError\<close>
  otherwise, and the loader has been called for earlier imports only, at most once each.
\<close>

theorem absolute_import_remote_root:
  assumes "tpl self = YMap root"
    and "map_of root (YStr IMPORTS) = Some (YList (pre @ YStr d # post))"
    and "\<not> os_path_isfile env (path self)"
    and "\<not> validate_url env d"
    and "os_path_isabs env d"
  shows "import_location env (os_path_isfile env (path self)) (path self) (YStr d)
           = Inl (ImportError
                   ''Absolute file name cannot be used for a URL-based input template.'')
       \<and> get_custom_types env self td
           = (case imports_loop env False (path self) td pre [] of
                (Inl e, loads) \<Rightarrow> (Inl e, loads)
              | (Inr cd, loads) \<Rightarrow>
                  (Inl (ImportError
                     ''Absolute file name cannot be used for a URL-based input template.''),
                   loads))
       \<and> (\<exists>e loads. get_custom_types env self td = (Inl e, loads)
                      \<and> length loads \<le> length pre)"
proof -
  let ?msg = "''Absolute file name cannot be used for a URL-based input template.''"
  obtain r loads where l: "imports_loop env False (path self) td pre [] = (r, loads)"
    by (cases "imports_loop env False (path self) td pre []")
  have n: "length loads \<le> length pre" by (rule imports_loop_length[OF l])
  have a: "import_location env False (path self) (YStr d) = Inl (ImportError ?msg)"
    using assms(4,5) by (simp add: import_location_def)
  have g: "get_custom_types env self td
           = (case imports_loop env False (path self) td pre [] of
                (Inl e, loads) \<Rightarrow> (Inl e, loads)
              | (Inr cd, loads) \<Rightarrow> (Inl (ImportError ?msg), loads))"
    using get_custom_types_list[OF assms(1,2), of env td] assms(3)
    by (simp add: imports_loop_append a split: prod.splits sum.splits)
  have "\<exists>e. get_custom_types env self td = (Inl e, loads)"
    unfolding g l by (cases r) simp_all
  with n a g assms(3) show ?thesis by auto
qed

text \<open>
  C5. The template's own location is not a local file and the imports before the one at
  hand went through. An import that is a valid URL is loaded as written, not as a file. An
  import that is neither a valid URL nor an absolute path is loaded from the URL that
  \<open>join_url\<close> makes of the template's own location and the import, not as a file.
\<close>

theorem remote_root_resolution:
  assumes "tpl self = YMap root"
    and "map_of root (YStr IMPORTS) = Some (YList (pre @ YStr d # post))"
    and "\<not> os_path_isfile env (path self)"
    and "imports_loop env False (path self) td pre [] = (Inr cd, loads)"
  shows "(validate_url env d \<longrightarrow>
            import_location env (os_path_isfile env (path self)) (path self) (YStr d)
              = Inr (d, False)
            \<and> (\<exists>r rest. get_custom_types env self td = (r, loads @ (d, False) # rest)))
       \<and> (\<forall>u. \<not> validate_url env d \<and> \<not> os_path_isabs env d
                \<and> join_url env (path self) d = Inr u \<longrightarrow>
            import_location env (os_path_isfile env (path self)) (path self) (YStr d)
              = Inr (u, False)
            \<and> (\<exists>r rest. get_custom_types env self td = (r, loads @ (u, False) # rest)))"
proof -
  have step: "\<exists>r rest. get_custom_types env self td = (r, loads @ loc # rest)"
    if "import_location env False (path self) (YStr d) = Inr loc" for loc
    using get_custom_types_list[OF assms(1,2), of env td] assms(3,4) that
    by (auto simp: imports_loop_append split: prod.splits sum.splits)
  have a: "validate_url env d \<Longrightarrow>
             import_location env False (path self) (YStr d) = Inr (d, False)"
    by (simp add: import_location_def)
  have b: "\<not> validate_url env d \<Longrightarrow> \<not> os_path_isabs env d \<Longrightarrow>
             join_url env (path self) d = Inr u \<Longrightarrow>
             import_location env False (path self) (YStr d) = Inr (u, False)" for u
    by (simp add: import_location_def)
  from a b step assms(3) show ?thesis by auto
qed

lemma demo_abs_self:
  "tpl (demo_self ''https://host/abs.yaml'' False demo_root_abs) = YMap [demo_version,
      (YStr ''imports'', YList ([YStr ''types.yaml''] @ YStr ''/proj/A.yaml'' # [YStr ''B.yaml'']))]"
  "path (demo_self ''https://host/abs.yaml'' False demo_root_abs) = ''https://host/abs.yaml''"
  "map_of [demo_version,
      (YStr ''imports'', YList ([YStr ''types.yaml''] @ YStr ''/proj/A.yaml'' # [YStr ''B.yaml'']))]
     (YStr IMPORTS)
   = Some (YList ([YStr ''types.yaml''] @ YStr ''/proj/A.yaml'' # [YStr ''B.yaml'']))"
  by (simp_all add: demo_self_def demo_root_abs_def IMPORTS_def demo_version_def)

lemma demo_abs_loop:
  "imports_loop demo_env False ''https://host/abs.yaml'' NODE_TYPES [YStr ''types.yaml''] []
   = (Inr [(YStr ''X'', demo_def ''A''), (YStr ''P'', demo_def ''A'')],
      [(''https://host/types.yaml'', False)])"
  by (simp add: import_location_def demo_env_sel demo_validate_url_def demo_isabs_def
        demo_join_url_def import_merge_def demo_loader_def demo_files_def demo_doc_A_def
        key_names dict_update_map_def)

theorem absolute_import_remote_root_witness:
  "\<not> os_path_isfile demo_env ''https://host/abs.yaml''
   \<and> \<not> validate_url demo_env ''/proj/A.yaml''
   \<and> os_path_isabs demo_env ''/proj/A.yaml''
   \<and> get_custom_types demo_env (demo_self ''https://host/abs.yaml'' False demo_root_abs)
        NODE_TYPES
       = (Inl (ImportError
                ''Absolute file name cannot be used for a URL-based input template.''),
          [(''https://host/types.yaml'', False)])"
proof -
  let ?self = "demo_self ''https://host/abs.yaml'' False demo_root_abs"
  have f: "\<not> os_path_isfile demo_env (path ?self)"
    by (simp add: demo_abs_self(2) demo_isfile)
  have u: "\<not> validate_url demo_env ''/proj/A.yaml''"
    by (simp add: demo_env_sel demo_validate_url_def)
  have a: "os_path_isabs demo_env ''/proj/A.yaml''"
    by (simp add: demo_env_sel demo_isabs_def)
  from absolute_import_remote_root[OF demo_abs_self(1,3) f u a, of NODE_TYPES]
  have "get_custom_types demo_env ?self NODE_TYPES
           = (case imports_loop demo_env False (path ?self) NODE_TYPES [YStr ''types.yaml''] [] of
                (Inl e, loads) \<Rightarrow> (Inl e, loads)
              | (Inr cd, loads) \<Rightarrow>
                  (Inl (ImportError
                     ''Absolute file name cannot be used for a URL-based input template.''),
                   loads))"
    by blast
  then have "get_custom_types demo_env ?self NODE_TYPES
       = (Inl (ImportError
                ''Absolute file name cannot be used for a URL-based input template.''),
          [(''https://host/types.yaml'', False)])"
    by (simp only: demo_abs_self(2) demo_abs_loop) simp
  with f u a show ?thesis by (simp add: demo_abs_self(2))
qed

lemma demo_remote_self:
  "tpl (demo_self ''https://host/root.yaml'' False demo_root_remote) = YMap [demo_version,
      (YStr ''imports'', YList ([YStr ''http://host/D.yaml''] @ YStr ''types.yaml'' # []))]"
  "tpl (demo_self ''https://host/root.yaml'' False demo_root_remote) = YMap [demo_version,
      (YStr ''imports'', YList ([] @ YStr ''http://host/D.yaml'' # [YStr ''types.yaml'']))]"
  "path (demo_self ''https://host/root.yaml'' False demo_root_remote) = ''https://host/root.yaml''"
  "map_of [demo_version,
      (YStr ''imports'', YList ([YStr ''http://host/D.yaml''] @ YStr ''types.yaml'' # []))]
     (YStr IMPORTS) = Some (YList ([YStr ''http://host/D.yaml''] @ YStr ''types.yaml'' # []))"
  "map_of [demo_version,
      (YStr ''imports'', YList ([] @ YStr ''http://host/D.yaml'' # [YStr ''types.yaml'']))]
     (YStr IMPORTS) = Some (YList ([] @ YStr ''http://host/D.yaml'' # [YStr ''types.yaml'']))"
  by (simp_all add: demo_self_def demo_root_remote_def IMPORTS_def demo_version_def)

lemma demo_remote_loop:
  "imports_loop demo_env False ''https://host/root.yaml'' NODE_TYPES [YStr ''http://host/D.yaml''] []
   = (Inr [], [(''http://host/D.yaml'', False)])"
  by (simp add: import_location_def demo_env_sel demo_validate_url_def
        import_merge_def demo_loader_def demo_files_def demo_doc_D_def key_names)

theorem remote_root_resolution_witness:
  "\<not> os_path_isfile demo_env ''https://host/root.yaml''
   \<and> validate_url demo_env ''http://host/D.yaml''
   \<and> \<not> validate_url demo_env ''types.yaml'' \<and> \<not> os_path_isabs demo_env ''types.yaml''
   \<and> join_url demo_env ''https://host/root.yaml'' ''types.yaml'' = Inr ''https://host/types.yaml''
   \<and> (\<exists>r rest. get_custom_types demo_env
                   (demo_self ''https://host/root.yaml'' False demo_root_remote) NODE_TYPES
                 = (r, (''http://host/D.yaml'', False) # rest))
   \<and> (\<exists>r rest. get_custom_types demo_env
                   (demo_self ''https://host/root.yaml'' False demo_root_remote) NODE_TYPES
                 = (r, (''http://host/D.yaml'', False) # (''https://host/types.yaml'', False)
                        # rest))"
proof -
  let ?self = "demo_self ''https://host/root.yaml'' False demo_root_remote"
  have f: "\<not> os_path_isfile demo_env (path ?self)"
    by (simp add: demo_remote_self(3) demo_isfile)
  have l0: "imports_loop demo_env False (path ?self) NODE_TYPES [] [] = (Inr [], [])"
    by simp
  have l1: "imports_loop demo_env False (path ?self) NODE_TYPES [YStr ''http://host/D.yaml''] []
              = (Inr [], [(''http://host/D.yaml'', False)])"
    by (simp only: demo_remote_self(3) demo_remote_loop)
  have v: "validate_url demo_env ''http://host/D.yaml''"
    by (simp add: demo_env_sel demo_validate_url_def)
  have n: "\<not> validate_url demo_env ''types.yaml''" "\<not> os_path_isabs demo_env ''types.yaml''"
    by (simp_all add: demo_env_sel demo_validate_url_def demo_isabs_def)
  have j: "join_url demo_env (path ?self) ''types.yaml'' = Inr ''https://host/types.yaml''"
    by (simp add: demo_remote_self(3) demo_env_sel demo_join_url_def demo_validate_url_def)
  from remote_root_resolution[OF demo_remote_self(2,5) f l0] v
  have a: "\<exists>r rest. get_custom_types demo_env ?self NODE_TYPES
                 = (r, [] @ (''http://host/D.yaml'', False) # rest)"
    by blast
  from remote_root_resolution[OF demo_remote_self(1,4) f l1] n j
  have b: "\<exists>r rest. get_custom_types demo_env ?self NODE_TYPES
                 = (r, [(''http://host/D.yaml'', False)] @ (''https://host/types.yaml'', False)
                        # rest)"
    by blast
  from f v n j a b show ?thesis by (simp add: demo_remote_self(3))
qed

section \<open>The locality of the template\<close>

text \<open>
  C8, as the code has it. \<open>_get_custom_types\<close> does not read the flag \<open>a_file\<close> that the
  constructor was given: the result of a merge is the same whatever the flag is. Each merge
  tests afresh whether the template's own location is a local file, and every loader call of
  that merge was resolved with the result of this test for the locality. When the flag agrees
  with the test, the resolution is the one that the flag gives.
\<close>

theorem locality_from_root_location:
  assumes "tpl self = YMap root"
    and "map_of root (YStr IMPORTS) = Some (YList es)"
    and "get_custom_types env self td = (r, loads)"
  shows "get_custom_types env (self\<lparr>a_file := b\<rparr>) td = get_custom_types env self td
       \<and> list_all2 (\<lambda>loc e. import_location env (os_path_isfile env (path self)) (path self) e
                               = Inr loc)
            loads (take (length loads) es)
       \<and> (a_file self = os_path_isfile env (path self) \<longrightarrow>
            list_all2 (\<lambda>loc e. import_location env (a_file self) (path self) e = Inr loc)
              loads (take (length loads) es))"
proof -
  let ?m = "os_path_isfile env (path self)"
  have h: "tpl (self\<lparr>a_file := b\<rparr>) = tpl self" "path (self\<lparr>a_file := b\<rparr>) = path self"
    by simp_all
  have a: "get_custom_types env (self\<lparr>a_file := b\<rparr>) td = get_custom_types env self td"
    unfolding get_custom_types_def tpl_imports_def h by (rule refl)
  obtain r' where l: "imports_loop env ?m (path self) td es [] = (r', loads)"
    using get_custom_types_loads(1)[OF assms(1,2), of env td] assms(3)
    by (cases "imports_loop env ?m (path self) td es []") simp
  have c: "list_all2 (\<lambda>loc e. import_location env ?m (path self) e = Inr loc)
             loads (take (length loads) es)"
    by (rule imports_loop_locations[OF l])
  from a c show ?thesis by simp
qed

theorem locality_from_root_location_witness:
  "get_custom_types demo_env (demo_self ''/proj/root.yaml'' True demo_root\<lparr>a_file := False\<rparr>)
      NODE_TYPES
     = get_custom_types demo_env (demo_self ''/proj/root.yaml'' True demo_root) NODE_TYPES
   \<and> os_path_isfile demo_env ''/proj/root.yaml''
   \<and> list_all2 (\<lambda>loc e. import_location demo_env True ''/proj/root.yaml'' e = Inr loc)
        [(''/proj/A.yaml'', True), (''/proj/B.yaml'', True)]
        [YStr ''A.yaml'', YStr ''B.yaml'']"
proof -
  have f: "os_path_isfile demo_env ''/proj/root.yaml''" by (simp add: demo_isfile)
  from locality_from_root_location[OF demo_root_self(1) demo_root_imports(2) demo_types(1),
         of False]
  show ?thesis by (simp add: demo_root_self(2) f)
qed

lemma demo_stdin_self:
  "tpl (demo_self ''/dev/stdin'' True demo_root_stdin)
     = YMap [demo_version, (YStr ''imports'', YList [YStr ''/proj/A.yaml''])]"
  "path (demo_self ''/dev/stdin'' True demo_root_stdin) = ''/dev/stdin''"
  "a_file (demo_self ''/dev/stdin'' True demo_root_stdin) = True"
  "map_of [demo_version, (YStr ''imports'', YList [YStr ''/proj/A.yaml''])] (YStr IMPORTS)
     = Some (YList [YStr ''/proj/A.yaml''])"
  by (simp_all add: demo_self_def demo_root_stdin_def IMPORTS_def demo_version_def)

text \<open>
  The claim C8 as the specification states it fails on a template that was loaded as a file,
  with the flag set, from a location that is not a regular file (a device, a pipe). By the
  locality of the load the import \<open>/proj/A.yaml\<close>, a file, would be loaded as it is; the merge
  takes the other branch and raises \<open>ImportError\<close>.
\<close>

theorem locality_flag_counterexample:
  "a_file (demo_self ''/dev/stdin'' True demo_root_stdin) = True
   \<and> YAML_LOADER demo_env ''/dev/stdin'' True
       = Inr (tpl (demo_self ''/dev/stdin'' True demo_root_stdin))
   \<and> import_location demo_env (a_file (demo_self ''/dev/stdin'' True demo_root_stdin))
        (path (demo_self ''/dev/stdin'' True demo_root_stdin)) (YStr ''/proj/A.yaml'')
       = Inr (''/proj/A.yaml'', True)
   \<and> get_custom_types demo_env (demo_self ''/dev/stdin'' True demo_root_stdin) NODE_TYPES
       = (Inl (ImportError
                ''Absolute file name cannot be used for a URL-based input template.''), [])"
proof -
  let ?self = "demo_self ''/dev/stdin'' True demo_root_stdin"
  have l: "YAML_LOADER demo_env ''/dev/stdin'' True = Inr (tpl ?self)"
    by (simp add: demo_env_sel demo_loader_def demo_files_def demo_self_def)
  have i: "import_location demo_env True ''/dev/stdin'' (YStr ''/proj/A.yaml'')
             = Inr (''/proj/A.yaml'', True)"
    by (simp add: import_location_def demo_isfile)
  have f: "os_path_isfile demo_env ''/dev/stdin'' = False" by (simp add: demo_isfile)
  have lp: "imports_loop demo_env False ''/dev/stdin'' NODE_TYPES [YStr ''/proj/A.yaml''] []
          = (Inl (ImportError
                ''Absolute file name cannot be used for a URL-based input template.''), [])"
    by (simp add: import_location_def demo_env_sel demo_validate_url_def demo_isabs_def)
  have g: "get_custom_types demo_env ?self NODE_TYPES
       = (Inl (ImportError
                ''Absolute file name cannot be used for a URL-based input template.''), [])"
    using get_custom_types_list[OF demo_stdin_self(1,4), of demo_env NODE_TYPES]
    by (simp only: demo_stdin_self(2) f lp) simp
  from l i g show ?thesis by (simp add: demo_stdin_self(2,3))
qed

section \<open>The description\<close>

lemma rstrip_split: "\<exists>ws. s = rstrip sp s @ ws \<and> list_all sp ws"
proof -
  have "rstrip sp s @ rev (takeWhile sp (rev s))
          = rev (takeWhile sp (rev s) @ dropWhile sp (rev s))"
    by (simp only: rstrip_def rev_append)
  also have "\<dots> = s"
    by (simp only: takeWhile_dropWhile_id rev_rev_ident)
  finally have "s = rstrip sp s @ rev (takeWhile sp (rev s))" by (rule sym)
  moreover have "list_all sp (rev (takeWhile sp (rev s)))"
    by (auto simp: list_all_iff dest: set_takeWhileD)
  ultimately show ?thesis by blast
qed

lemma rstrip_last: "rstrip sp s = [] \<or> \<not> sp (last (rstrip sp s))"
proof (cases "dropWhile sp (rev s)")
  case Nil
  then show ?thesis by (simp add: rstrip_def)
next
  case (Cons x xs)
  then have "\<not> sp (hd (dropWhile sp (rev s)))"
    by (metis hd_dropWhile list.distinct(1))
  with Cons show ?thesis by (simp add: rstrip_def)
qed

lemma validate_field_version:
  "validate_field self = Inr u \<Longrightarrow> \<exists>v. tpl_version self = Inr v"
  by (cases "tpl_version self") (auto simp: validate_field_def split: error.splits)

lemma tpl_description_map:
  "tpl self = YMap kvs \<Longrightarrow>
   tpl_description env self =
     (case map_of kvs (YStr DESCRIPTION) of
        None \<Rightarrow> Inl (KeyError ''description'')
      | Some v \<Rightarrow> py_rstrip (isspace env) v)"
  by (simp add: tpl_description_def DESCRIPTION_def split: option.splits)

text \<open>
  C9. The loaded document is a mapping that passes the field validation. If it has no
  \<open>description\<close> key, \<open>__init__\<close> fails: with \<open>KeyError\<close> for that key once the relationship
  types have been merged, and with the exception of that merge otherwise; the version key
  alone is not enough. If the key is there with a string and \<open>__init__\<close> returns an object,
  the description of the object is that string without its trailing whitespace: the string
  is the description followed by whitespace only, and the description does not end in
  whitespace.
\<close>

theorem description_required:
  assumes "YAML_LOADER env p f = Inr (YMap kvs)"
    and "validate_field \<lparr>tpl = YMap kvs, path = p, a_file = f, parsed_params = params\<rparr> = Inr ()"
  shows "(map_of kvs (YStr DESCRIPTION) = None \<longrightarrow>
            (\<exists>e loads. ToscaTemplate_init env p f params = (Inl e, loads))
          \<and> (\<forall>rel loads.
                get_custom_types env
                  \<lparr>tpl = YMap kvs, path = p, a_file = f, parsed_params = params\<rparr>
                  RELATIONSHIP_TYPES = (Inr rel, loads) \<longrightarrow>
                ToscaTemplate_init env p f params
                  = (Inl (KeyError ''description''), (p, f) # loads)))
       \<and> (\<forall>s obj loads.
             map_of kvs (YStr DESCRIPTION) = Some (YStr s)
             \<and> ToscaTemplate_init env p f params = (Inr obj, loads) \<longrightarrow>
             description obj = rstrip (isspace env) s
             \<and> (\<exists>ws. s = description obj @ ws \<and> list_all (isspace env) ws)
             \<and> (description obj = [] \<or> \<not> isspace env (last (description obj))))"
proof -
  let ?self = "\<lparr>tpl = YMap kvs, path = p, a_file = f, parsed_params = params\<rparr>"
  from validate_field_version[OF assms(2)] obtain v where v: "tpl_version ?self = Inr v" ..
  have d: "tpl_description env ?self =
     (case map_of kvs (YStr DESCRIPTION) of
        None \<Rightarrow> Inl (KeyError ''description'')
      | Some v \<Rightarrow> py_rstrip (isspace env) v)"
    by (rule tpl_description_map) simp
  obtain rr rl where g: "get_custom_types env ?self RELATIONSHIP_TYPES = (rr, rl)"
    by (cases "get_custom_types env ?self RELATIONSHIP_TYPES")
  have i: "ToscaTemplate_init env p f params =
     (case rr of
        Inl e \<Rightarrow> (Inl e, (p, f) # rl)
      | Inr rel_types \<Rightarrow>
          (case tpl_description env ?self of
             Inl e \<Rightarrow> (Inl e, (p, f) # rl)
           | Inr descr \<Rightarrow>
          (case topology_template_of env ?self rel_types of
             (Inl e, loads2) \<Rightarrow> (Inl e, (p, f) # rl @ loads2)
           | (Inr topo, loads2) \<Rightarrow>
          (case ToscaGraph env (topology_nodetemplates topo) of
             Inl e \<Rightarrow> (Inl e, (p, f) # rl @ loads2)
           | Inr g \<Rightarrow>
               (Inr \<lparr>tpl = YMap kvs, path = p, a_file = f, parsed_params = params,
                      version = v, relationship_types = rel_types, description = descr,
                      topology_template = topo,
                      inputs = topology_inputs topo,
                      relationship_templates = topology_relationship_templates topo,
                      nodetemplates = topology_nodetemplates topo,
                      outputs = topology_outputs topo,
                      graph = g\<rparr>,
                (p, f) # rl @ loads2)))))"
    unfolding ToscaTemplate_init_def tpl_relationship_types_def
    by (simp add: assms v g Let_def split: sum.splits)
  have a: "map_of kvs (YStr DESCRIPTION) = None \<longrightarrow>
            (\<exists>e loads. ToscaTemplate_init env p f params = (Inl e, loads))
          \<and> (\<forall>rel loads. get_custom_types env ?self RELATIONSHIP_TYPES = (Inr rel, loads) \<longrightarrow>
                ToscaTemplate_init env p f params
                  = (Inl (KeyError ''description''), (p, f) # loads))"
    unfolding i d g by (cases rr) auto
  have b: "\<forall>s obj loads.
             map_of kvs (YStr DESCRIPTION) = Some (YStr s)
             \<and> ToscaTemplate_init env p f params = (Inr obj, loads) \<longrightarrow>
             description obj = rstrip (isspace env) s"
    unfolding i d by (auto split: sum.splits prod.splits)
  have c: "\<forall>s obj loads.
             map_of kvs (YStr DESCRIPTION) = Some (YStr s)
             \<and> ToscaTemplate_init env p f params = (Inr obj, loads) \<longrightarrow>
             description obj = rstrip (isspace env) s
             \<and> (\<exists>ws. s = description obj @ ws \<and> list_all (isspace env) ws)
             \<and> (description obj = [] \<or> \<not> isspace env (last (description obj)))"
  proof (intro allI impI)
    fix s obj loads
    assume h: "map_of kvs (YStr DESCRIPTION) = Some (YStr s)
             \<and> ToscaTemplate_init env p f params = (Inr obj, loads)"
    with b have e: "description obj = rstrip (isspace env) s" by blast
    show "description obj = rstrip (isspace env) s
             \<and> (\<exists>ws. s = description obj @ ws \<and> list_all (isspace env) ws)
             \<and> (description obj = [] \<or> \<not> isspace env (last (description obj)))"
      unfolding e using rstrip_split[of s "isspace env"] rstrip_last[of "isspace env" s]
      by blast
  qed
  from a c show ?thesis by blast
qed

lemma demo_all_defs:
  "get_all_custom_defs demo_env (demo_self ''/proj/root.yaml'' True demo_root)
     = (Inr [(YStr ''X'', demo_def ''B''), (YStr ''P'', demo_def ''A''),
             (YStr ''Y'', demo_def ''B cap'')],
        [(''/proj/A.yaml'', True), (''/proj/B.yaml'', True),
         (''/proj/A.yaml'', True), (''/proj/B.yaml'', True),
         (''/proj/A.yaml'', True), (''/proj/B.yaml'', True),
         (''/proj/A.yaml'', True), (''/proj/B.yaml'', True)])"
  unfolding get_all_custom_defs_def all_custom_defs_loop.simps demo_types
  by (simp add: dict_update_map_def)

lemma demo_root_loaded:
  "YAML_LOADER demo_env ''/proj/root.yaml'' True = Inr (YMap [demo_version,
      (YStr ''description'', YStr ''Demo template.  ''),
      (YStr ''imports'', YList [YStr ''A.yaml'', YStr ''B.yaml'']),
      (YStr ''node_types'', YMap [(YStr ''Y'', demo_def ''root'')]),
      (YStr ''topology_template'', YMap [])])"
  "\<lparr>tpl = YMap [demo_version,
      (YStr ''description'', YStr ''Demo template.  ''),
      (YStr ''imports'', YList [YStr ''A.yaml'', YStr ''B.yaml'']),
      (YStr ''node_types'', YMap [(YStr ''Y'', demo_def ''root'')]),
      (YStr ''topology_template'', YMap [])],
    path = ''/proj/root.yaml'', a_file = True, parsed_params = ''params''\<rparr>
   = demo_self ''/proj/root.yaml'' True demo_root"
  by (simp_all add: demo_env_sel demo_loader_def demo_files_def demo_root_def demo_self_def)

lemma demo_root_valid:
  "validate_field (demo_self ''/proj/root.yaml'' True demo_root) = Inr ()"
  "tpl_version (demo_self ''/proj/root.yaml'' True demo_root)
     = Inr (YStr ''tosca_simple_yaml_1_0'')"
  "tpl_description demo_env (demo_self ''/proj/root.yaml'' True demo_root)
     = Inr ''Demo template.''"
  "tpl_topology_template (demo_self ''/proj/root.yaml'' True demo_root) = Inr (YMap [])"
  by (simp_all add: validate_field_def tpl_version_def validate_version_def
        tpl_description_def tpl_topology_template_def demo_root_self(1) demo_version_def
        SECTIONS_def key_names VALID_TEMPLATE_VERSIONS_def demo_env_sel demo_isspace_def
        rstrip_def)

lemma init_returns:
  assumes "YAML_LOADER env p f = Inr doc"
    and "validate_field \<lparr>tpl = doc, path = p, a_file = f, parsed_params = params\<rparr> = Inr ()"
    and "tpl_version \<lparr>tpl = doc, path = p, a_file = f, parsed_params = params\<rparr> = Inr v"
    and "get_custom_types env \<lparr>tpl = doc, path = p, a_file = f, parsed_params = params\<rparr>
           RELATIONSHIP_TYPES = (Inr rel, l1)"
    and "tpl_description env \<lparr>tpl = doc, path = p, a_file = f, parsed_params = params\<rparr>
           = Inr descr"
    and "tpl_topology_template \<lparr>tpl = doc, path = p, a_file = f, parsed_params = params\<rparr>
           = Inr tt"
    and "get_all_custom_defs env \<lparr>tpl = doc, path = p, a_file = f, parsed_params = params\<rparr>
           = (Inr agg, l2)"
    and "TopologyTemplate env tt agg rel params = Inr topo"
    and "ToscaGraph env (topology_nodetemplates topo) = Inr g"
  shows "ToscaTemplate_init env p f params =
           (Inr \<lparr>tpl = doc, path = p, a_file = f, parsed_params = params,
                  version = v, relationship_types = rel, description = descr,
                  topology_template = topo,
                  inputs = topology_inputs topo,
                  relationship_templates = topology_relationship_templates topo,
                  nodetemplates = topology_nodetemplates topo,
                  outputs = topology_outputs topo,
                  graph = g\<rparr>,
            (p, f) # l1 @ l2)"
  unfolding ToscaTemplate_init_def tpl_relationship_types_def topology_template_of_def Let_def
  by (simp add: assms)

lemma demo_root_init:
  "\<exists>obj. ToscaTemplate_init demo_env ''/proj/root.yaml'' True ''params''
           = (Inr obj,
              [(''/proj/root.yaml'', True),
               (''/proj/A.yaml'', True), (''/proj/B.yaml'', True),
               (''/proj/A.yaml'', True), (''/proj/B.yaml'', True),
               (''/proj/A.yaml'', True), (''/proj/B.yaml'', True),
               (''/proj/A.yaml'', True), (''/proj/B.yaml'', True),
               (''/proj/A.yaml'', True), (''/proj/B.yaml'', True)])"
proof -
  note s = demo_root_loaded(2)[symmetric]
  have t: "TopologyTemplate demo_env (YMap [])
             [(YStr ''X'', demo_def ''B''), (YStr ''P'', demo_def ''A''),
              (YStr ''Y'', demo_def ''B cap'')] [] ''params''
           = Inr \<lparr>topology_inputs = ''inputs'', topology_nodetemplates = ''nodetemplates'',
                  topology_relationship_templates = ''relationship_templates'',
                  topology_outputs = ''outputs''\<rparr>"
    by (simp add: demo_env_def)
  have g: "ToscaGraph demo_env
             (topology_nodetemplates
                \<lparr>topology_inputs = ''inputs'', topology_nodetemplates = ''nodetemplates'',
                  topology_relationship_templates = ''relationship_templates'',
                  topology_outputs = ''outputs''\<rparr>) = Inr ''graph''"
    by (simp add: demo_env_def)
  from init_returns[OF demo_root_loaded(1) demo_root_valid(1)[unfolded s]
         demo_root_valid(2)[unfolded s] demo_types(3)[unfolded s]
         demo_root_valid(3)[unfolded s] demo_root_valid(4)[unfolded s]
         demo_all_defs[unfolded s] t g]
  show ?thesis by simp
qed

lemma demo_undescribed:
  "YAML_LOADER demo_env ''/proj/undescribed.yaml'' True
     = Inr (YMap [demo_version, (YStr ''node_types'', YMap [])])"
  "validate_field \<lparr>tpl = YMap [demo_version, (YStr ''node_types'', YMap [])],
      path = ''/proj/undescribed.yaml'', a_file = True, parsed_params = ''params''\<rparr> = Inr ()"
  "map_of [demo_version, (YStr ''node_types'', YMap [])] (YStr DESCRIPTION) = None"
  "get_custom_types demo_env \<lparr>tpl = YMap [demo_version, (YStr ''node_types'', YMap [])],
      path = ''/proj/undescribed.yaml'', a_file = True, parsed_params = ''params''\<rparr>
     RELATIONSHIP_TYPES = (Inr [], [])"
     apply (simp add: demo_env_sel demo_loader_def demo_files_def demo_root_undescribed_def)
    apply (simp add: validate_field_def tpl_version_def validate_version_def demo_version_def
        SECTIONS_def key_names VALID_TEMPLATE_VERSIONS_def)
   apply (simp add: DESCRIPTION_def demo_version_def)
  apply (simp add: get_custom_types_no_imports[where root = "[demo_version, (YStr ''node_types'', YMap [])]"]
      IMPORTS_def demo_version_def own_merge_def RELATIONSHIP_TYPES_def)
  done

lemma demo_datatypes_undescribed:
  "YAML_LOADER demo_env ''/proj/datatypes.yaml'' True = Inr (YMap [demo_version,
      (YStr ''node_types'', YMap [(YStr ''T'', demo_def ''node''), (YStr ''N'', demo_def ''node'')]),
      (YStr ''artifact_types'', YMap [(YStr ''Art'', demo_def ''artifact'')]),
      (YStr ''datatype_definitions'', YMap [(YStr ''T'', demo_def ''datatype'')])])"
  "validate_field \<lparr>tpl = YMap [demo_version,
      (YStr ''node_types'', YMap [(YStr ''T'', demo_def ''node''), (YStr ''N'', demo_def ''node'')]),
      (YStr ''artifact_types'', YMap [(YStr ''Art'', demo_def ''artifact'')]),
      (YStr ''datatype_definitions'', YMap [(YStr ''T'', demo_def ''datatype'')])],
      path = ''/proj/datatypes.yaml'', a_file = True, parsed_params = ''params''\<rparr> = Inr ()"
  "map_of [demo_version,
      (YStr ''node_types'', YMap [(YStr ''T'', demo_def ''node''), (YStr ''N'', demo_def ''node'')]),
      (YStr ''artifact_types'', YMap [(YStr ''Art'', demo_def ''artifact'')]),
      (YStr ''datatype_definitions'', YMap [(YStr ''T'', demo_def ''datatype'')])] (YStr DESCRIPTION) = None"
  "get_custom_types demo_env \<lparr>tpl = YMap [demo_version,
      (YStr ''node_types'', YMap [(YStr ''T'', demo_def ''node''), (YStr ''N'', demo_def ''node'')]),
      (YStr ''artifact_types'', YMap [(YStr ''Art'', demo_def ''artifact'')]),
      (YStr ''datatype_definitions'', YMap [(YStr ''T'', demo_def ''datatype'')])],
      path = ''/proj/datatypes.yaml'', a_file = True, parsed_params = ''params''\<rparr>
     RELATIONSHIP_TYPES = (Inr [], [])"
     apply (simp add: demo_env_sel demo_loader_def demo_files_def demo_root_datatypes_def)
    apply (simp add: validate_field_def tpl_version_def validate_version_def demo_version_def
        SECTIONS_def key_names VALID_TEMPLATE_VERSIONS_def)
   apply (simp add: DESCRIPTION_def demo_version_def)
  apply (simp add: get_custom_types_no_imports[where root = "[demo_version,
      (YStr ''node_types'', YMap [(YStr ''T'', demo_def ''node''), (YStr ''N'', demo_def ''node'')]),
      (YStr ''artifact_types'', YMap [(YStr ''Art'', demo_def ''artifact'')]),
      (YStr ''datatype_definitions'', YMap [(YStr ''T'', demo_def ''datatype'')])]"]
      IMPORTS_def demo_version_def own_merge_def RELATIONSHIP_TYPES_def)
  done

theorem description_required_witness:
  "ToscaTemplate_init demo_env ''/proj/undescribed.yaml'' True ''params''
     = (Inl (KeyError ''description''), [(''/proj/undescribed.yaml'', True)])
   \<and> ToscaTemplate_init demo_env ''/proj/datatypes.yaml'' True ''params''
     = (Inl (KeyError ''description''), [(''/proj/datatypes.yaml'', True)])
   \<and> (\<exists>obj loads. ToscaTemplate_init demo_env ''/proj/root.yaml'' True ''params''
                     = (Inr obj, loads)
                   \<and> description obj = ''Demo template.'')"
proof -
  from description_required[OF demo_datatypes_undescribed(1,2)] demo_datatypes_undescribed(3,4)
  have a2: "ToscaTemplate_init demo_env ''/proj/datatypes.yaml'' True ''params''
     = (Inl (KeyError ''description''), [(''/proj/datatypes.yaml'', True)])"
    by blast
  from description_required[OF demo_undescribed(1,2)] demo_undescribed(3,4)
  have a: "ToscaTemplate_init demo_env ''/proj/undescribed.yaml'' True ''params''
     = (Inl (KeyError ''description''), [(''/proj/undescribed.yaml'', True)])"
    by blast
  obtain obj loads where
    i: "ToscaTemplate_init demo_env ''/proj/root.yaml'' True ''params'' = (Inr obj, loads)"
    using demo_root_init by blast
  have v: "validate_field \<lparr>tpl = YMap [demo_version,
      (YStr ''description'', YStr ''Demo template.  ''),
      (YStr ''imports'', YList [YStr ''A.yaml'', YStr ''B.yaml'']),
      (YStr ''node_types'', YMap [(YStr ''Y'', demo_def ''root'')]),
      (YStr ''topology_template'', YMap [])],
    path = ''/proj/root.yaml'', a_file = True, parsed_params = ''params''\<rparr> = Inr ()"
    unfolding demo_root_loaded(2) by (rule demo_root_valid(1))
  have d: "map_of [demo_version,
      (YStr ''description'', YStr ''Demo template.  ''),
      (YStr ''imports'', YList [YStr ''A.yaml'', YStr ''B.yaml'']),
      (YStr ''node_types'', YMap [(YStr ''Y'', demo_def ''root'')]),
      (YStr ''topology_template'', YMap [])] (YStr DESCRIPTION)
     = Some (YStr ''Demo template.  '')"
    by (simp add: DESCRIPTION_def demo_version_def)
  from description_required[OF demo_root_loaded(1) v] d i
  have "description obj = rstrip (isspace demo_env) ''Demo template.  ''"
    by blast
  then have "description obj = ''Demo template.''"
    by (simp add: demo_env_sel demo_isspace_def rstrip_def)
  with a a2 i show ?thesis by blast
qed

end
